theory Spec2Isabelle
  imports Complex_Main "HOL-Library.AList" "HOL-Library.Multiset"
begin

section \<open>PassPilot: the request handlers of \<^verbatim>\<open>engine/app.py\<close>\<close>

text \<open>
  The file \<^verbatim>\<open>engine/app.py\<close> holds the Flask view functions of the service and the
  start-up function \<^verbatim>\<open>initialize_exam_analyzer\<close>. The class \<^verbatim>\<open>ExamAnalyzer\<close> that
  they drive lives in another module; it enters the model as a parameter (a record of
  its methods over an abstract object state).

  Conventions of the embedding:
  \<^item> a Python value that travels through a request or a response is a \<open>json\<close> value;
  \<^item> a Python \<open>float\<close> is an abstract type \<open>'f\<close>; the few float operations the handlers
    perform are the fields of a \<open>float_ops\<close> record, so no rounding behaviour is assumed;
  \<^item> a Python \<open>str\<close> is a \<open>string\<close> that holds the text in UTF-8; the operations of
    \<open>str\<close> that depend on the Unicode character database (\<^verbatim>\<open>strip\<close>, \<^verbatim>\<open>upper\<close>,
    \<^verbatim>\<open>int\<close> of a string, the division into characters) are the fields of a \<open>str_ops\<close>
    record, so nothing is assumed about which characters are spaces, digits or letters;
  \<^item> a \<open>dict\<close> is an association list in insertion order (first binding wins);
  \<^item> a view function returns its response, the list of analyzer methods it invoked (in
    order, with their arguments) and the global state it leaves behind;
  \<^item> an exception is a value of \<open>py_exn\<close>; what Flask does with an exception that escapes
    a view function is \<open>flask_handle\<close>. Logging is not modelled.
\<close>

subsection \<open>Values\<close>

datatype 'f json =
    JNull
  | JBool bool
  | JInt int
  | JFloat 'f
  | JStr string
  | JArr "'f json list"
  | JObj "(string \<times> 'f json) list"

text \<open>The float operations used by the handlers: truthiness, \<open>-\<close>, \<open>>\<close> (also against an
  \<open>int\<close>, which Python compares exactly), the conversion of an \<open>int\<close> operand of a mixed
  subtraction (\<open>None\<close>: \<^verbatim>\<open>OverflowError\<close>), and the literal \<^verbatim>\<open>0.5\<close>.\<close>

record 'f float_ops =
  float_is_zero :: "'f \<Rightarrow> bool"
  float_of_int :: "int \<Rightarrow> 'f option"
  float_sub :: "'f \<Rightarrow> 'f \<Rightarrow> 'f"
  float_gt :: "'f \<Rightarrow> 'f \<Rightarrow> bool"
  float_gt_int :: "'f \<Rightarrow> int \<Rightarrow> bool"
  int_gt_float :: "int \<Rightarrow> 'f \<Rightarrow> bool"
  float_half :: "'f"

text \<open>The operations on strings used by the handlers: \<^verbatim>\<open>s.strip()\<close>, \<^verbatim>\<open>s.upper()\<close>, \<^verbatim>\<open>int(s)\<close>
  (\<open>None\<close>: \<^verbatim>\<open>ValueError\<close>, the one exception the conversion of a string raises), and the
  characters of \<open>s\<close> in order, each as a string of its own (what \<^verbatim>\<open>len\<close> counts and what a
  \<^verbatim>\<open>for\<close> loop over \<open>s\<close> draws).\<close>

record str_ops =
  str_strip :: "string \<Rightarrow> string"
  str_upper :: "string \<Rightarrow> string"
  str_int :: "string \<Rightarrow> int option"
  str_chars :: "string \<Rightarrow> string list"

text \<open>Exception classes. The last two derive from \<^verbatim>\<open>BaseException\<close> only, so neither
  \<^verbatim>\<open>except Exception\<close> nor Flask's dispatcher catches them.\<close>

datatype py_exn =
    AttributeError
  | TypeError
  | ValueError
  | OverflowError
  | FileNotFoundError
  | OtherException string
  | KeyboardInterrupt
  | SystemExit

fun isinstance_Exception :: "py_exn \<Rightarrow> bool" where
  "isinstance_Exception KeyboardInterrupt = False"
| "isinstance_Exception SystemExit = False"
| "isinstance_Exception _ = True"

text \<open>Python truthiness (\<^verbatim>\<open>not v\<close> is its negation).\<close>

fun truthy :: "'f float_ops \<Rightarrow> 'f json \<Rightarrow> bool" where
  "truthy fo JNull = False"
| "truthy fo (JBool b) = b"
| "truthy fo (JInt n) = (n \<noteq> 0)"
| "truthy fo (JFloat x) = (\<not> float_is_zero fo x)"
| "truthy fo (JStr s) = (s \<noteq> [])"
| "truthy fo (JArr xs) = (xs \<noteq> [])"
| "truthy fo (JObj kvs) = (kvs \<noteq> [])"

text \<open>\<^verbatim>\<open>v.get(key, default)\<close>: only a dict has the method (\<open>dict_get\<close>: the value of the
  key, also when it is \<^verbatim>\<open>None\<close>, and the default when the key is absent); on any other
  value the attribute lookup raises \<^verbatim>\<open>AttributeError\<close>.\<close>

definition dict_get :: "(string \<times> 'v) list \<Rightarrow> string \<Rightarrow> 'v \<Rightarrow> 'v" where
  "dict_get kvs k d = (case map_of kvs k of None \<Rightarrow> d | Some v \<Rightarrow> v)"

fun py_get :: "'f json \<Rightarrow> string \<Rightarrow> 'f json \<Rightarrow> py_exn + 'f json" where
  "py_get (JObj kvs) k d = Inr (dict_get kvs k d)"
| "py_get _ k d = Inl AttributeError"

text \<open>\<^verbatim>\<open>len(v)\<close>: defined on str, list and dict; \<^verbatim>\<open>TypeError\<close> otherwise. The length of a
  dict is the number of its distinct keys (\<open>dict_keys\<close>: the keys in insertion order).\<close>

definition dict_keys :: "(string \<times> 'v) list \<Rightarrow> string list" where
  "dict_keys kvs = rev (remdups (rev (map fst kvs)))"

fun py_len :: "str_ops \<Rightarrow> 'f json \<Rightarrow> py_exn + int" where
  "py_len so (JStr s) = Inr (int (length (str_chars so s)))"
| "py_len so (JArr xs) = Inr (int (length xs))"
| "py_len so (JObj kvs) = Inr (int (length (dict_keys kvs)))"
| "py_len so _ = Inl TypeError"

text \<open>\<^verbatim>\<open>d[key] = v\<close> on a value \<open>d\<close>: a dict is updated (an existing key keeps its place, a
  new one goes last); a list takes integer indices only and the other values support no
  item assignment, so a string key raises \<^verbatim>\<open>TypeError\<close> on all of them.\<close>

fun py_setitem :: "'f json \<Rightarrow> string \<Rightarrow> 'f json \<Rightarrow> py_exn + 'f json" where
  "py_setitem (JObj kvs) k v = Inr (JObj (AList.update k v kvs))"
| "py_setitem _ k v = Inl TypeError"

subsection \<open>Strings\<close>

text \<open>\<^verbatim>\<open>int(s)\<close> on a string: the value, or \<^verbatim>\<open>ValueError\<close>.\<close>

definition py_int :: "str_ops \<Rightarrow> string \<Rightarrow> py_exn + int" where
  "py_int so s = (case str_int so s of None \<Rightarrow> Inl ValueError | Some n \<Rightarrow> Inr n)"

subsection \<open>Numbers\<close>

text \<open>The operands Python's arithmetic accepts among the JSON values: \<open>int\<close>, \<open>float\<close> and
  \<open>bool\<close> (a subclass of \<open>int\<close>: \<^verbatim>\<open>True\<close> is 1).\<close>

datatype 'f pynum = PInt int | PFloat 'f

fun as_number :: "'f json \<Rightarrow> 'f pynum option" where
  "as_number (JInt n) = Some (PInt n)"
| "as_number (JBool b) = Some (PInt (if b then 1 else 0))"
| "as_number (JFloat x) = Some (PFloat x)"
| "as_number _ = None"

fun num_json :: "'f pynum \<Rightarrow> 'f json" where
  "num_json (PInt n) = JInt n"
| "num_json (PFloat x) = JFloat x"

text \<open>\<^verbatim>\<open>a - b\<close>: \<^verbatim>\<open>TypeError\<close> unless both operands are numbers; an \<open>int\<close> operand of a mixed
  subtraction is converted to \<open>float\<close> first, which can raise \<^verbatim>\<open>OverflowError\<close>.\<close>

definition py_sub :: "'f float_ops \<Rightarrow> 'f json \<Rightarrow> 'f json \<Rightarrow> py_exn + 'f pynum" where
  "py_sub fo a b =
     (case (as_number a, as_number b) of
        (Some (PInt m), Some (PInt n)) \<Rightarrow> Inr (PInt (m - n))
      | (Some (PFloat x), Some (PFloat y)) \<Rightarrow> Inr (PFloat (float_sub fo x y))
      | (Some (PInt m), Some (PFloat y)) \<Rightarrow>
          (case float_of_int fo m of
             None \<Rightarrow> Inl OverflowError
           | Some x \<Rightarrow> Inr (PFloat (float_sub fo x y)))
      | (Some (PFloat x), Some (PInt n)) \<Rightarrow>
          (case float_of_int fo n of
             None \<Rightarrow> Inl OverflowError
           | Some y \<Rightarrow> Inr (PFloat (float_sub fo x y)))
      | _ \<Rightarrow> Inl TypeError)"

text \<open>\<^verbatim>\<open>n > v\<close> for a number \<open>n\<close>: \<^verbatim>\<open>TypeError\<close> unless \<open>v\<close> is a number too.\<close>

fun pynum_gt :: "'f float_ops \<Rightarrow> 'f pynum \<Rightarrow> 'f pynum \<Rightarrow> bool" where
  "pynum_gt fo (PInt m) (PInt n) = (m > n)"
| "pynum_gt fo (PFloat x) (PFloat y) = float_gt fo x y"
| "pynum_gt fo (PInt m) (PFloat y) = int_gt_float fo m y"
| "pynum_gt fo (PFloat x) (PInt n) = float_gt_int fo x n"

definition num_gt :: "'f float_ops \<Rightarrow> 'f pynum \<Rightarrow> 'f json \<Rightarrow> py_exn + bool" where
  "num_gt fo n v = (case as_number v of None \<Rightarrow> Inl TypeError | Some m \<Rightarrow> Inr (pynum_gt fo n m))"

text \<open>\<^verbatim>\<open>max(a, n)\<close> with a number as second argument: the built-in keeps its first
  argument unless the second compares greater.\<close>

definition py_max :: "'f float_ops \<Rightarrow> 'f json \<Rightarrow> 'f pynum \<Rightarrow> py_exn + 'f json" where
  "py_max fo a n = (case num_gt fo n a of Inl e \<Rightarrow> Inl e | Inr b \<Rightarrow> Inr (if b then num_json n else a))"

subsection \<open>The analyzer, the global state, requests and responses\<close>

text \<open>The class \<^verbatim>\<open>ExamAnalyzer\<close> is defined outside \<^verbatim>\<open>app.py\<close>. An object of the class has
  a state of type \<open>'s\<close>; a method takes the state and its arguments, returns or raises, and
  leaves a state behind in both cases. \<open>init\<close> is the constructor call \<^verbatim>\<open>ExamAnalyzer()\<close>
  and \<open>is_fitted\<close> the truth value of the attribute of that name. An object of the class
  counts as true in \<^verbatim>\<open>not exam_analyzer\<close>, as every object does whose class defines
  neither \<^verbatim>\<open>__bool__\<close> nor \<^verbatim>\<open>__len__\<close>.\<close>

record ('s, 'f) ExamAnalyzer =
  init :: "py_exn + 's"
  is_fitted :: "'s \<Rightarrow> bool"
  load_json_files :: "'s \<Rightarrow> string \<Rightarrow> (py_exn + unit) \<times> 's"
  build_embeddings :: "'s \<Rightarrow> (py_exn + unit) \<times> 's"
  semantic_search :: "'s \<Rightarrow> string \<Rightarrow> 'f json \<Rightarrow> 'f json \<Rightarrow> (py_exn + 'f json) \<times> 's"
  get_module_distribution :: "'s \<Rightarrow> 'f json \<Rightarrow> (py_exn + 'f json) \<times> 's"
  get_marks_distribution :: "'s \<Rightarrow> 'f json \<Rightarrow> (py_exn + 'f json) \<times> 's"
  get_pass_strategy :: "'s \<Rightarrow> 'f json \<Rightarrow> 'f json \<Rightarrow> (py_exn + 'f json) \<times> 's"
  run_pass_simulation :: "'s \<Rightarrow> 'f json \<Rightarrow> 'f json \<Rightarrow> (py_exn + 'f json) \<times> 's"
  get_topic_analysis :: "'s \<Rightarrow> int \<Rightarrow> (py_exn + 'f json) \<times> 's"
  get_stats :: "'s \<Rightarrow> (py_exn + 'f json) \<times> 's"

text \<open>The operations invoked on the analyzer, as a view function's trace records them.\<close>

datatype 'f call =
    Call_init
  | Call_load_json_files string
  | Call_build_embeddings
  | Call_semantic_search string "'f json" "'f json"
  | Call_get_module_distribution "'f json"
  | Call_get_marks_distribution "'f json"
  | Call_get_pass_strategy "'f json" "'f json"
  | Call_run_pass_simulation "'f json" "'f json"
  | Call_get_topic_analysis int
  | Call_get_stats

text \<open>The module-level variable \<^verbatim>\<open>exam_analyzer\<close>: \<open>None\<close> until the start-up function
  assigns it.\<close>

record 's globals =
  exam_analyzer :: "'s option"

text \<open>What a view function reads of a request: the query parameters (\<^verbatim>\<open>request.args\<close>,
  in order; \<^verbatim>\<open>get\<close> takes the first value of a key) and the outcome of
  \<^verbatim>\<open>request.get_json()\<close>, which either returns the parsed body or aborts with an HTTP
  error of its own (a body that is no JSON: 400; a content type that is not JSON: 415).\<close>

datatype http_abort = BadRequest | UnsupportedMediaType

record 'f request =
  args :: "(string \<times> string) list"
  get_json :: "http_abort + 'f json"

text \<open>A response: \<open>Json c v\<close> is \<^verbatim>\<open>jsonify(v), c\<close>; \<open>Abort h\<close> is the error page of an
  HTTP error raised by the framework; \<open>Propagates e\<close> is an exception that Flask does not
  turn into a response.\<close>

datatype 'f response =
    Json nat "'f json"
  | Abort http_abort
  | Propagates py_exn

fun status_code :: "'f response \<Rightarrow> nat option" where
  "status_code (Json c v) = Some c"
| "status_code (Abort BadRequest) = Some 400"
| "status_code (Abort UnsupportedMediaType) = Some 415"
| "status_code (Propagates e) = None"

text \<open>The handler registered for status 500, and Flask's treatment of an exception that
  escapes a view function: an instance of \<^verbatim>\<open>Exception\<close> is answered by that handler.\<close>

definition internal_error :: "'f response" where
  "internal_error =
     Json 500 (JObj [(''error'', JStr ''Internal server error''),
                     (''message'', JStr ''An unexpected error occurred.'')])"

definition flask_handle :: "py_exn \<Rightarrow> 'f response" where
  "flask_handle e = (if isinstance_Exception e then internal_error else Propagates e)"

definition not_ready :: "'f response" where
  "not_ready = Json 503 (JObj [(''error'', JStr ''Exam analyzer not ready.'')])"

type_synonym ('s, 'f) outcome = "'f response \<times> 'f call list \<times> 's globals"

subsection \<open>The view functions of the exam analyzer\<close>

text \<open>\<^verbatim>\<open>semantic_query\<close>, route \<^verbatim>\<open>/query\<close>. \<open>query_response\<close> is the second half of the
  function, from the reading of the optional fields on. The entries of the response dict
  are evaluated in order, so \<^verbatim>\<open>len(results)\<close> comes before the two distribution calls.\<close>

definition query_response ::
  "'f float_ops \<Rightarrow> str_ops \<Rightarrow> ('s, 'f) ExamAnalyzer \<Rightarrow> 's globals \<Rightarrow> 's \<Rightarrow> 'f json \<Rightarrow> string
     \<Rightarrow> ('s, 'f) outcome" where
  "query_response fo so cls g a data query =
     (case py_get data ''similarity_threshold'' (JFloat (float_half fo)) of
        Inl e \<Rightarrow> (flask_handle e, [], g)
      | Inr similarity_threshold \<Rightarrow>
       (case py_get data ''top_k'' (JInt 20) of
          Inl e \<Rightarrow> (flask_handle e, [], g)
        | Inr top_k \<Rightarrow>
         (let c1 = Call_semantic_search query similarity_threshold top_k in
          case semantic_search cls a query similarity_threshold top_k of
            (Inl e, a1) \<Rightarrow> (flask_handle e, [c1], g\<lparr>exam_analyzer := Some a1\<rparr>)
          | (Inr results, a1) \<Rightarrow>
           (case py_len so results of
              Inl e \<Rightarrow> (flask_handle e, [c1], g\<lparr>exam_analyzer := Some a1\<rparr>)
            | Inr total_matches \<Rightarrow>
             (let c2 = Call_get_module_distribution results in
              case get_module_distribution cls a1 results of
                (Inl e, a2) \<Rightarrow> (flask_handle e, [c1, c2], g\<lparr>exam_analyzer := Some a2\<rparr>)
              | (Inr module_distribution, a2) \<Rightarrow>
               (let c3 = Call_get_marks_distribution results in
                case get_marks_distribution cls a2 results of
                  (Inl e, a3) \<Rightarrow> (flask_handle e, [c1, c2, c3], g\<lparr>exam_analyzer := Some a3\<rparr>)
                | (Inr marks_distribution, a3) \<Rightarrow>
                    (Json 200 (JObj [(''query'', JStr query),
                                     (''total_matches'', JInt total_matches),
                                     (''results'', results),
                                     (''module_distribution'', module_distribution),
                                     (''marks_distribution'', marks_distribution)]),
                     [c1, c2, c3], g\<lparr>exam_analyzer := Some a3\<rparr>)))))))"

definition semantic_query ::
  "'f float_ops \<Rightarrow> str_ops \<Rightarrow> ('s, 'f) ExamAnalyzer \<Rightarrow> 's globals \<Rightarrow> 'f request \<Rightarrow> ('s, 'f) outcome" where
  "semantic_query fo so cls g req =
     (case exam_analyzer g of
        None \<Rightarrow> (not_ready, [], g)
      | Some a \<Rightarrow>
       (if \<not> is_fitted cls a then (not_ready, [], g)
        else (case get_json req of
          Inl h \<Rightarrow> (Abort h, [], g)
        | Inr data \<Rightarrow>
         (if \<not> truthy fo data
          then (Json 400 (JObj [(''error'', JStr ''Missing required field: query'')]), [], g)
          else (case py_get data ''query'' JNull of
            Inl e \<Rightarrow> (flask_handle e, [], g)
          | Inr q \<Rightarrow>
           (if \<not> truthy fo q
            then (Json 400 (JObj [(''error'', JStr ''Missing required field: query'')]), [], g)
            else (case q of
              JStr s \<Rightarrow>
               (let query = str_strip so s in
                if query = []
                then (Json 400 (JObj [(''error'', JStr ''Query cannot be empty'')]), [], g)
                else query_response fo so cls g a data query)
            | _ \<Rightarrow> (flask_handle AttributeError, [], g))))))))"

text \<open>\<^verbatim>\<open>pass_strategy\<close>, route \<^verbatim>\<open>/pass-strategy\<close>; \<open>strategy_response\<close> is the function from
  the reading of the fields on.\<close>

definition strategy_response ::
  "'f float_ops \<Rightarrow> ('s, 'f) ExamAnalyzer \<Rightarrow> 's globals \<Rightarrow> 's \<Rightarrow> 'f json \<Rightarrow> ('s, 'f) outcome" where
  "strategy_response fo cls g a data =
     (case py_get data ''studied_topics'' (JArr []) of
        Inl e \<Rightarrow> (flask_handle e, [], g)
      | Inr studied_topics \<Rightarrow>
     (case py_get data ''internal_marks'' (JInt 0) of
        Inl e \<Rightarrow> (flask_handle e, [], g)
      | Inr internal_marks \<Rightarrow>
     (case py_get data ''external_pass_threshold'' (JInt 40) of
        Inl e \<Rightarrow> (flask_handle e, [], g)
      | Inr external_pass_threshold \<Rightarrow>
     (case py_get data ''overall_pass_threshold'' (JInt 75) of
        Inl e \<Rightarrow> (flask_handle e, [], g)
      | Inr overall_pass_threshold \<Rightarrow>
     (case py_sub fo overall_pass_threshold internal_marks of
        Inl e \<Rightarrow> (flask_handle e, [], g)
      | Inr marks_needed_for_overall \<Rightarrow>
     (case py_max fo external_pass_threshold marks_needed_for_overall of
        Inl e \<Rightarrow> (flask_handle e, [], g)
      | Inr target_external_marks \<Rightarrow>
       (let c = Call_get_pass_strategy studied_topics target_external_marks in
        case get_pass_strategy cls a studied_topics target_external_marks of
          (Inl e, a1) \<Rightarrow> (flask_handle e, [c], g\<lparr>exam_analyzer := Some a1\<rparr>)
        | (Inr strategy, a1) \<Rightarrow>
         (case py_setitem strategy ''inputs''
                 (JObj [(''internal_marks'', internal_marks),
                        (''studied_topics'', studied_topics),
                        (''calculated_target_marks'', target_external_marks)]) of
            Inl e \<Rightarrow> (flask_handle e, [c], g\<lparr>exam_analyzer := Some a1\<rparr>)
          | Inr strategy' \<Rightarrow> (Json 200 strategy', [c], g\<lparr>exam_analyzer := Some a1\<rparr>)))))))))"

definition pass_strategy ::
  "'f float_ops \<Rightarrow> ('s, 'f) ExamAnalyzer \<Rightarrow> 's globals \<Rightarrow> 'f request \<Rightarrow> ('s, 'f) outcome" where
  "pass_strategy fo cls g req =
     (case exam_analyzer g of
        None \<Rightarrow> (not_ready, [], g)
      | Some a \<Rightarrow>
       (if \<not> is_fitted cls a then (not_ready, [], g)
        else (case get_json req of
          Inl h \<Rightarrow> (Abort h, [], g)
        | Inr data \<Rightarrow>
         (if \<not> truthy fo data
          then (Json 400 (JObj [(''error'', JStr ''Invalid JSON payload'')]), [], g)
          else strategy_response fo cls g a data))))"

text \<open>\<^verbatim>\<open>pass_simulation\<close>, route \<^verbatim>\<open>/pass-simulation\<close>, in the same two parts.\<close>

definition simulation_response ::
  "'f float_ops \<Rightarrow> ('s, 'f) ExamAnalyzer \<Rightarrow> 's globals \<Rightarrow> 's \<Rightarrow> 'f json \<Rightarrow> ('s, 'f) outcome" where
  "simulation_response fo cls g a data =
     (case py_get data ''studied_topics'' (JArr []) of
        Inl e \<Rightarrow> (flask_handle e, [], g)
      | Inr studied_topics \<Rightarrow>
     (case py_get data ''internal_marks'' (JInt 0) of
        Inl e \<Rightarrow> (flask_handle e, [], g)
      | Inr internal_marks \<Rightarrow>
     (case py_get data ''external_pass_threshold'' (JInt 40) of
        Inl e \<Rightarrow> (flask_handle e, [], g)
      | Inr external_pass_threshold \<Rightarrow>
     (case py_get data ''overall_pass_threshold'' (JInt 75) of
        Inl e \<Rightarrow> (flask_handle e, [], g)
      | Inr overall_pass_threshold \<Rightarrow>
     (case py_sub fo overall_pass_threshold internal_marks of
        Inl e \<Rightarrow> (flask_handle e, [], g)
      | Inr marks_needed_for_overall \<Rightarrow>
     (case py_max fo external_pass_threshold marks_needed_for_overall of
        Inl e \<Rightarrow> (flask_handle e, [], g)
      | Inr target_external_marks \<Rightarrow>
       (let c = Call_run_pass_simulation studied_topics target_external_marks in
        case run_pass_simulation cls a studied_topics target_external_marks of
          (Inl e, a1) \<Rightarrow> (flask_handle e, [c], g\<lparr>exam_analyzer := Some a1\<rparr>)
        | (Inr simulation_results, a1) \<Rightarrow>
         (case py_setitem simulation_results ''inputs''
                 (JObj [(''internal_marks'', internal_marks),
                        (''studied_topics'', studied_topics),
                        (''calculated_target_marks'', target_external_marks)]) of
            Inl e \<Rightarrow> (flask_handle e, [c], g\<lparr>exam_analyzer := Some a1\<rparr>)
          | Inr simulation_results' \<Rightarrow>
              (Json 200 simulation_results', [c], g\<lparr>exam_analyzer := Some a1\<rparr>)))))))))"

definition pass_simulation ::
  "'f float_ops \<Rightarrow> ('s, 'f) ExamAnalyzer \<Rightarrow> 's globals \<Rightarrow> 'f request \<Rightarrow> ('s, 'f) outcome" where
  "pass_simulation fo cls g req =
     (case exam_analyzer g of
        None \<Rightarrow> (not_ready, [], g)
      | Some a \<Rightarrow>
       (if \<not> is_fitted cls a then (not_ready, [], g)
        else (case get_json req of
          Inl h \<Rightarrow> (Abort h, [], g)
        | Inr data \<Rightarrow>
         (if \<not> truthy fo data
          then (Json 400 (JObj [(''error'', JStr ''Invalid JSON payload'')]), [], g)
          else simulation_response fo cls g a data))))"

text \<open>\<^verbatim>\<open>analyze_topics\<close>, route \<^verbatim>\<open>/topics\<close>: \<^verbatim>\<open>int(request.args.get('min_frequency', 2))\<close>
  converts the text of the parameter, or the default 2.\<close>

definition min_frequency_arg :: "str_ops \<Rightarrow> 'f request \<Rightarrow> py_exn + int" where
  "min_frequency_arg so req =
     (case map_of (args req) ''min_frequency'' of None \<Rightarrow> Inr 2 | Some s \<Rightarrow> py_int so s)"

definition analyze_topics ::
  "str_ops \<Rightarrow> ('s, 'f) ExamAnalyzer \<Rightarrow> 's globals \<Rightarrow> 'f request \<Rightarrow> ('s, 'f) outcome" where
  "analyze_topics so cls g req =
     (case exam_analyzer g of
        None \<Rightarrow> (not_ready, [], g)
      | Some a \<Rightarrow>
       (if \<not> is_fitted cls a then (not_ready, [], g)
        else (case min_frequency_arg so req of
          Inl e \<Rightarrow> (flask_handle e, [], g)
        | Inr min_frequency \<Rightarrow>
         (let c = Call_get_topic_analysis min_frequency in
          case get_topic_analysis cls a min_frequency of
            (Inl e, a1) \<Rightarrow> (flask_handle e, [c], g\<lparr>exam_analyzer := Some a1\<rparr>)
          | (Inr topic_list, a1) \<Rightarrow>
           (case py_len so topic_list of
              Inl e \<Rightarrow> (flask_handle e, [c], g\<lparr>exam_analyzer := Some a1\<rparr>)
            | Inr total_topics \<Rightarrow>
                (Json 200 (JObj [(''total_topics'', JInt total_topics),
                                 (''parameters'', JObj [(''min_frequency'', JInt min_frequency)]),
                                 (''topics'', topic_list)]),
                 [c], g\<lparr>exam_analyzer := Some a1\<rparr>))))))"

text \<open>\<^verbatim>\<open>dataset_stats\<close>, route \<^verbatim>\<open>/stats\<close>.\<close>

definition dataset_stats ::
  "('s, 'f) ExamAnalyzer \<Rightarrow> 's globals \<Rightarrow> 'f request \<Rightarrow> ('s, 'f) outcome" where
  "dataset_stats cls g req =
     (case exam_analyzer g of
        None \<Rightarrow> (not_ready, [], g)
      | Some a \<Rightarrow>
       (if \<not> is_fitted cls a then (not_ready, [], g)
        else (case get_stats cls a of
          (Inl e, a1) \<Rightarrow> (flask_handle e, [Call_get_stats], g\<lparr>exam_analyzer := Some a1\<rparr>)
        | (Inr stats, a1) \<Rightarrow> (Json 200 stats, [Call_get_stats], g\<lparr>exam_analyzer := Some a1\<rparr>))))"

subsection \<open>The course lookup\<close>

text \<open>\<^verbatim>\<open>get_topics_for_course\<close>, route \<^verbatim>\<open>/topics-for-course\<close>. The function reads the
  file \<^verbatim>\<open>exams_info.json\<close> on every request; \<open>exams_info\<close> is the outcome of opening and
  parsing it: the parsed value, or the exception raised together with its text
  (\<^verbatim>\<open>str(e)\<close>). The exceptions that the loop itself can raise carry CPython's messages.\<close>

fun type_name :: "'f json \<Rightarrow> string" where
  "type_name JNull = ''NoneType''"
| "type_name (JBool b) = ''bool''"
| "type_name (JInt n) = ''int''"
| "type_name (JFloat x) = ''float''"
| "type_name (JStr s) = ''str''"
| "type_name (JArr xs) = ''list''"
| "type_name (JObj kvs) = ''dict''"

definition quoted :: "string \<Rightarrow> string" where
  "quoted s = [CHR 0x27] @ s @ [CHR 0x27]"

definition no_attribute :: "'f json \<Rightarrow> string \<Rightarrow> py_exn \<times> string" where
  "no_attribute v name =
     (AttributeError, quoted (type_name v) @ '' object has no attribute '' @ quoted name)"

definition not_iterable :: "'f json \<Rightarrow> py_exn \<times> string" where
  "not_iterable v = (TypeError, quoted (type_name v) @ '' object is not iterable'')"

text \<open>The values a \<^verbatim>\<open>for\<close> loop draws from \<open>v\<close>: the items of a list, the keys of a dict,
  the characters of a string; the other values are not iterable.\<close>

fun py_iter :: "str_ops \<Rightarrow> 'f json \<Rightarrow> (py_exn \<times> string) + 'f json list" where
  "py_iter so (JArr xs) = Inr xs"
| "py_iter so (JObj kvs) = Inr (map JStr (dict_keys kvs))"
| "py_iter so (JStr s) = Inr (map JStr (str_chars so s))"
| "py_iter so v = Inl (not_iterable v)"

definition course_not_found :: "string \<Rightarrow> 'f response" where
  "course_not_found course_code =
     Json 404 (JObj [(''error'', JStr (''Course with code '' @ quoted course_code @ '' not found.''))])"

text \<open>The loop over the courses: the first course whose code matches is returned; a course
  that is no dict, or whose code is no string, raises before any later course is seen.\<close>

fun find_course ::
  "str_ops \<Rightarrow> string \<Rightarrow> 'f json list \<Rightarrow> (py_exn \<times> string) + 'f response" where
  "find_course so course_code [] = Inr (course_not_found course_code)"
| "find_course so course_code (course # rest) =
     (case course of
        JObj kvs \<Rightarrow>
         (case dict_get kvs ''courseCode'' (JStr []) of
            JStr cc \<Rightarrow>
              if str_upper so cc = str_upper so course_code
              then Inr (Json 200 (JObj [(''courseCode'', dict_get kvs ''courseCode'' JNull),
                                        (''topics'', dict_get kvs ''topics'' (JArr []))]))
              else find_course so course_code rest
          | v \<Rightarrow> Inl (no_attribute v ''upper''))
      | v \<Rightarrow> Inl (no_attribute v ''get''))"

text \<open>The body of the \<^verbatim>\<open>try\<close> statement, on the parsed file.\<close>

definition lookup_course ::
  "str_ops \<Rightarrow> string \<Rightarrow> 'f json \<Rightarrow> (py_exn \<times> string) + 'f response" where
  "lookup_course so course_code data =
     (case data of
        JObj kvs \<Rightarrow>
         (case py_iter so (dict_get kvs ''courses'' (JArr [])) of
            Inl e \<Rightarrow> Inl e
          | Inr courses \<Rightarrow> find_course so course_code courses)
      | v \<Rightarrow> Inl (no_attribute v ''get''))"

text \<open>The two \<^verbatim>\<open>except\<close> clauses; an exception outside \<^verbatim>\<open>Exception\<close> passes both.\<close>

definition course_except :: "py_exn \<times> string \<Rightarrow> 'f response" where
  "course_except em =
     (case em of
        (FileNotFoundError, msg) \<Rightarrow>
          Json 500 (JObj [(''error'', JStr ''Server configuration file not found.'')])
      | (e, msg) \<Rightarrow>
          if isinstance_Exception e
          then Json 500 (JObj [(''error'', JStr ''Internal server error''), (''details'', JStr msg)])
          else Propagates e)"

definition get_topics_for_course ::
  "str_ops \<Rightarrow> ((py_exn \<times> string) + 'f json) \<Rightarrow> 'f request \<Rightarrow> 'f response" where
  "get_topics_for_course so exams_info req =
     (case map_of (args req) ''code'' of
        None \<Rightarrow> Json 400 (JObj [(''error'', JStr ''Query parameter \"code\" is required.'')])
      | Some course_code \<Rightarrow>
         (if course_code = []
          then Json 400 (JObj [(''error'', JStr ''Query parameter \"code\" is required.'')])
          else (case exams_info of
                  Inl em \<Rightarrow> course_except em
                | Inr data \<Rightarrow>
                   (case lookup_course so course_code data of
                      Inl em \<Rightarrow> course_except em
                    | Inr r \<Rightarrow> r))))"

subsection \<open>Start-up\<close>

text \<open>\<^verbatim>\<open>initialize_exam_analyzer\<close>. \<open>DATA_FOLDER\<close> is the configured path and \<open>path_exists\<close>
  is \<^verbatim>\<open>os.path.exists\<close>. The result is the value returned, or the exception that leaves
  the function; \<open>except_Exception\<close> is the handler of the \<^verbatim>\<open>try\<close> statement.\<close>

definition except_Exception :: "py_exn \<Rightarrow> py_exn + bool" where
  "except_Exception e = (if isinstance_Exception e then Inr False else Inl e)"

definition initialize_exam_analyzer ::
  "('s, 'f) ExamAnalyzer \<Rightarrow> string \<Rightarrow> (string \<Rightarrow> bool) \<Rightarrow> 's globals
     \<Rightarrow> (py_exn + bool) \<times> 'f call list \<times> 's globals" where
  "initialize_exam_analyzer cls DATA_FOLDER path_exists g =
     (case init cls of
        Inl e \<Rightarrow> (except_Exception e, [Call_init], g)
      | Inr a \<Rightarrow>
         (if \<not> path_exists DATA_FOLDER
          then (Inr False, [Call_init], g\<lparr>exam_analyzer := Some a\<rparr>)
          else (case load_json_files cls a DATA_FOLDER of
                  (Inl e, a1) \<Rightarrow>
                    (except_Exception e, [Call_init, Call_load_json_files DATA_FOLDER],
                     g\<lparr>exam_analyzer := Some a1\<rparr>)
                | (Inr u, a1) \<Rightarrow>
                   (case build_embeddings cls a1 of
                      (Inl e, a2) \<Rightarrow>
                        (except_Exception e,
                         [Call_init, Call_load_json_files DATA_FOLDER, Call_build_embeddings],
                         g\<lparr>exam_analyzer := Some a2\<rparr>)
                    | (Inr u', a2) \<Rightarrow>
                        (Inr True,
                         [Call_init, Call_load_json_files DATA_FOLDER, Call_build_embeddings],
                         g\<lparr>exam_analyzer := Some a2\<rparr>)))))"

subsection \<open>Readiness, and the target as the specification words it\<close>

text \<open>The readiness of the analyzer, as \<^verbatim>\<open>health_check\<close> reports it:
  \<^verbatim>\<open>exam_analyzer is not None and exam_analyzer.is_fitted\<close>.\<close>

definition exam_analyzer_ready :: "('s, 'f) ExamAnalyzer \<Rightarrow> 's globals \<Rightarrow> bool" where
  "exam_analyzer_ready cls g =
     (case exam_analyzer g of None \<Rightarrow> False | Some a \<Rightarrow> is_fitted cls a)"

text \<open>The target of the two pass endpoints in the words of the specification:
  \<^verbatim>\<open>max(external_pass_threshold, overall_pass_threshold - internal_marks)\<close>, evaluated by
  Python on the three values.\<close>

definition target_marks ::
  "'f float_ops \<Rightarrow> 'f json \<Rightarrow> 'f json \<Rightarrow> 'f json \<Rightarrow> py_exn + 'f json" where
  "target_marks fo external_pass_threshold overall_pass_threshold internal_marks =
     (case py_sub fo overall_pass_threshold internal_marks of
        Inl e \<Rightarrow> Inl e
      | Inr n \<Rightarrow> py_max fo external_pass_threshold n)"

text \<open>The entry \<^verbatim>\<open>inputs\<close> that both pass endpoints add to the analyzer's result.\<close>

definition inputs_echo :: "'f json \<Rightarrow> 'f json \<Rightarrow> 'f json \<Rightarrow> 'f json" where
  "inputs_echo internal_marks studied_topics target =
     JObj [(''internal_marks'', internal_marks),
           (''studied_topics'', studied_topics),
           (''calculated_target_marks'', target)]"

subsection \<open>The Strategy Planner\<close>

text \<open>Modelled from the spec: the method \<^verbatim>\<open>get_pass_strategy\<close> of \<^verbatim>\<open>ExamAnalyzer\<close> and
  the data it works on are not part of \<^verbatim>\<open>app.py\<close>. The definitions follow sections 3
  and 4.4 of the specification: a question has a module, a text, an optional topic label
  and a marks value; a topic record aggregates the questions of one label; the Planner
  excludes the studied topics, ranks the remaining records by a weight of frequency and
  average marks (the weight is left open by the specification and is a parameter here),
  and accumulates average marks until the running total meets the target or the pool is
  exhausted; the flag tells whether the target was met.\<close>

record question =
  q_module :: string
  q_text :: string
  q_topic :: "string option"
  q_marks :: nat

record topic_record =
  topic_name :: string
  frequency :: nat
  modules :: "string list"
  total_marks :: nat
  average_marks :: rat

definition topic_record_of :: "question list \<Rightarrow> string \<Rightarrow> topic_record" where
  "topic_record_of corpus t =
     (let qs = filter (\<lambda>q. q_topic q = Some t) corpus
      in \<lparr>topic_name = t,
          frequency = length qs,
          modules = remdups (map q_module qs),
          total_marks = sum_list (map q_marks qs),
          average_marks = of_nat (sum_list (map q_marks qs)) / of_nat (length qs)\<rparr>)"

definition topic_records :: "question list \<Rightarrow> topic_record list" where
  "topic_records corpus = map (topic_record_of corpus) (remdups (List.map_filter q_topic corpus))"

definition non_studied :: "question list \<Rightarrow> string list \<Rightarrow> topic_record list" where
  "non_studied corpus studied =
     filter (\<lambda>t. topic_name t \<notin> set studied) (topic_records corpus)"

text \<open>Highest weight first; records of equal weight keep their order.\<close>

definition rank :: "(nat \<Rightarrow> rat \<Rightarrow> rat) \<Rightarrow> topic_record list \<Rightarrow> topic_record list" where
  "rank weight ts = rev (sort_key (\<lambda>t. weight (frequency t) (average_marks t)) (rev ts))"

fun accumulate ::
  "rat \<Rightarrow> topic_record list \<Rightarrow> topic_record list \<Rightarrow> rat \<Rightarrow> topic_record list \<times> rat" where
  "accumulate target [] chosen running = (rev chosen, running)"
| "accumulate target (t # pool) chosen running =
     (if running \<ge> target then (rev chosen, running)
      else accumulate target pool (t # chosen) (running + average_marks t))"

record strategy_result =
  recommended_topics :: "string list"
  projected_marks :: rat
  feasible :: bool
  margin :: rat

text \<open>The share of the studied topics in the Planner's total. Section 4.4 excludes the
  studied topics and names no other source of marks, and in the scenario of section 8
  the studied topic adds nothing to the projected 25 marks: the share is zero.\<close>

definition studied_contribution :: "question list \<Rightarrow> string list \<Rightarrow> rat" where
  "studied_contribution corpus studied = 0"

definition planner ::
  "(nat \<Rightarrow> rat \<Rightarrow> rat) \<Rightarrow> question list \<Rightarrow> string list \<Rightarrow> rat \<Rightarrow> strategy_result" where
  "planner weight corpus studied target =
     (let (chosen, running) =
            accumulate target (rank weight (non_studied corpus studied)) []
              (studied_contribution corpus studied)
      in \<lparr>recommended_topics = map topic_name chosen,
          projected_marks = running,
          feasible = (running \<ge> target),
          margin = running - target\<rparr>)"

subsection \<open>Instances for evaluation\<close>

text \<open>A float type with exact arithmetic and a small analyzer with fixed answers, on which
  the view functions can be run. The analyzer's state is its \<^verbatim>\<open>is_fitted\<close> flag; its search
  finds nothing.\<close>

definition exact_floats :: "rat float_ops" where
  "exact_floats =
     \<lparr>float_is_zero = (\<lambda>x. x = 0),
      float_of_int = (\<lambda>n. Some (of_int n)),
      float_sub = (\<lambda>x y. x - y),
      float_gt = (\<lambda>x y. x > y),
      float_gt_int = (\<lambda>x n. x > of_int n),
      int_gt_float = (\<lambda>n x. of_int n > x),
      float_half = 1 / 2\<rparr>"

definition sample_analyzer :: "(bool, rat) ExamAnalyzer" where
  "sample_analyzer =
     \<lparr>init = Inr False,
      is_fitted = (\<lambda>a. a),
      load_json_files = (\<lambda>a path. (Inr (), a)),
      build_embeddings = (\<lambda>a. (Inr (), True)),
      semantic_search = (\<lambda>a q t k. (Inr (JArr []), a)),
      get_module_distribution = (\<lambda>a rs. (Inr (JObj []), a)),
      get_marks_distribution = (\<lambda>a rs. (Inr (JObj []), a)),
      get_pass_strategy = (\<lambda>a st t. (Inr (JObj [(''recommended_topics'', JArr [])]), a)),
      run_pass_simulation = (\<lambda>a st t. (Inr (JObj [(''pass_probability'', JInt 0)]), a)),
      get_topic_analysis = (\<lambda>a n. (Inr (JArr []), a)),
      get_stats = (\<lambda>a. (Inr (JObj [(''total_questions'', JInt 0)]), a))\<rparr>"

text \<open>The sample analyzer with a search that finds two questions.\<close>

definition found_questions :: "rat json" where
  "found_questions =
     JArr [JObj [(''question'', JStr ''Explain heap sort''), (''module'', JStr ''A'')],
           JObj [(''question'', JStr ''Explain merge sort''), (''module'', JStr ''A'')]]"

definition finding_analyzer :: "(bool, rat) ExamAnalyzer" where
  "finding_analyzer =
     sample_analyzer\<lparr>semantic_search := (\<lambda>a q t k. (Inr found_questions, a)),
                     get_module_distribution := (\<lambda>a rs. (Inr (JObj [(''A'', JInt 2)]), a))\<rparr>"

text \<open>The sample analyzer with a search that raises.\<close>

definition failing_analyzer :: "(bool, rat) ExamAnalyzer" where
  "failing_analyzer =
     sample_analyzer\<lparr>semantic_search := (\<lambda>a q t k. (Inl (OtherException ''index unavailable''), a))\<rparr>"

text \<open>The sample analyzer with a \<^verbatim>\<open>load_json_files\<close> that raises the given exception.\<close>

definition raising_analyzer :: "py_exn \<Rightarrow> (bool, rat) ExamAnalyzer" where
  "raising_analyzer e = sample_analyzer\<lparr>load_json_files := (\<lambda>a path. (Inl e, a))\<rparr>"

text \<open>The string operations of Python on ASCII text. On a string of ASCII characters each
  of them returns what Python returns: \<^verbatim>\<open>strip\<close> removes the characters 9 to 13 and 28 to 32
  at both ends; \<^verbatim>\<open>upper\<close> maps \<open>a\<close> to \<open>z\<close>; \<^verbatim>\<open>int\<close> drops the whitespace of C (9 to 13 and
  32) at both ends, allows one sign and then wants decimal digits, single underscores
  between two digits allowed, at most \<open>int_max_str_digits\<close> of them (CPython's default
  limit). They serve to run the view functions on ASCII inputs and say nothing about
  other text; the properties below hold for every \<open>str_ops\<close>.\<close>

definition ascii_isspace :: "char \<Rightarrow> bool" where
  "ascii_isspace c =
     (let n = (of_char c :: nat) in (9 \<le> n \<and> n \<le> 13) \<or> (28 \<le> n \<and> n \<le> 32))"

definition ascii_strip :: "string \<Rightarrow> string" where
  "ascii_strip s = rev (dropWhile ascii_isspace (rev (dropWhile ascii_isspace s)))"

definition ascii_upper_char :: "char \<Rightarrow> char" where
  "ascii_upper_char c =
     (let n = (of_char c :: nat) in if 97 \<le> n \<and> n \<le> 122 then char_of (n - 32) else c)"

definition ascii_upper :: "string \<Rightarrow> string" where
  "ascii_upper s = map ascii_upper_char s"

definition Py_ISSPACE :: "char \<Rightarrow> bool" where
  "Py_ISSPACE c = (let n = (of_char c :: nat) in (9 \<le> n \<and> n \<le> 13) \<or> n = 32)"

definition ascii_isdigit :: "char \<Rightarrow> bool" where
  "ascii_isdigit c = (let n = (of_char c :: nat) in 48 \<le> n \<and> n \<le> 57)"

definition digit_value :: "char \<Rightarrow> int" where
  "digit_value c = int (of_char c) - 48"

fun int_digits :: "bool \<Rightarrow> int \<Rightarrow> nat \<Rightarrow> string \<Rightarrow> (int \<times> nat) option" where
  "int_digits after_digit acc n [] = (if after_digit then Some (acc, n) else None)"
| "int_digits after_digit acc n (c # cs) =
     (if ascii_isdigit c then int_digits True (10 * acc + digit_value c) (Suc n) cs
      else if c = CHR ''_'' \<and> after_digit then int_digits False acc n cs
      else None)"

definition int_max_str_digits :: nat where
  "int_max_str_digits = 4300"

definition ascii_int :: "string \<Rightarrow> int option" where
  "ascii_int s =
     (let t = rev (dropWhile Py_ISSPACE (rev (dropWhile Py_ISSPACE s)));
          (negative, body) =
            (case t of
               [] \<Rightarrow> (False, [])
             | c # cs \<Rightarrow> if c = CHR ''-'' then (True, cs) else if c = CHR ''+'' then (False, cs) else (False, t))
      in case int_digits False 0 0 body of
           None \<Rightarrow> None
         | Some (v, n) \<Rightarrow>
             if n > int_max_str_digits then None
             else Some (if negative then - v else v))"

definition ascii_strings :: str_ops where
  "ascii_strings =
     \<lparr>str_strip = ascii_strip,
      str_upper = ascii_upper,
      str_int = ascii_int,
      str_chars = map (\<lambda>c. [c])\<rparr>"

text \<open>The corpus of the scenario in section 8 of the specification.\<close>

definition scenario_corpus :: "question list" where
  "scenario_corpus =
     [\<lparr>q_module = ''A'', q_text = ''q1'', q_topic = Some ''Arrays'', q_marks = 10\<rparr>,
      \<lparr>q_module = ''A'', q_text = ''q2'', q_topic = Some ''Arrays'', q_marks = 10\<rparr>,
      \<lparr>q_module = ''A'', q_text = ''q3'', q_topic = Some ''Sorting'', q_marks = 5\<rparr>,
      \<lparr>q_module = ''B'', q_text = ''q4'', q_topic = Some ''Graphs'', q_marks = 15\<rparr>]"

subsection \<open>Notions used in the properties\<close>

text \<open>The requests to \<^verbatim>\<open>/query\<close> without a usable query text, read off the parsed body: the
  body is an object without the field \<^verbatim>\<open>query\<close>, or the field is a string that is empty
  or is empty after \<^verbatim>\<open>strip()\<close>, or the field is another empty value (\<^verbatim>\<open>null\<close>, \<^verbatim>\<open>false\<close>,
  0, an empty list or object), or the body itself is such an empty value.\<close>

definition query_missing_or_empty :: "'f float_ops \<Rightarrow> str_ops \<Rightarrow> 'f json \<Rightarrow> bool" where
  "query_missing_or_empty fo so data =
     (case data of
        JObj kvs \<Rightarrow>
         (case map_of kvs ''query'' of
            None \<Rightarrow> True
          | Some (JStr s) \<Rightarrow> s = [] \<or> str_strip so s = []
          | Some v \<Rightarrow> \<not> truthy fo v)
      | v \<Rightarrow> \<not> truthy fo v)"

text \<open>The JSON values that Python's arithmetic takes as numbers.\<close>

definition is_number :: "'f json \<Rightarrow> bool" where
  "is_number v = (case as_number v of None \<Rightarrow> False | Some n \<Rightarrow> True)"

text \<open>The course lookup in the words of the claim: a course entry has a code when it is an
  object whose \<^verbatim>\<open>courseCode\<close> is a string or absent (then taken as the empty string); it
  matches when that code equals the parameter after \<^verbatim>\<open>upper()\<close> on both sides; the answer
  for a course carries its \<^verbatim>\<open>courseCode\<close> and its \<^verbatim>\<open>topics\<close>, an empty list by default.\<close>

definition has_course_code :: "'f json \<Rightarrow> bool" where
  "has_course_code course =
     (case course of
        JObj kvs \<Rightarrow> (case dict_get kvs ''courseCode'' (JStr []) of JStr cc \<Rightarrow> True | v \<Rightarrow> False)
      | v \<Rightarrow> False)"

definition course_matches :: "str_ops \<Rightarrow> string \<Rightarrow> 'f json \<Rightarrow> bool" where
  "course_matches so course_code course =
     (case course of
        JObj kvs \<Rightarrow>
         (case dict_get kvs ''courseCode'' (JStr []) of
            JStr cc \<Rightarrow> str_upper so cc = str_upper so course_code
          | v \<Rightarrow> False)
      | v \<Rightarrow> False)"

definition course_fields :: "'f json \<Rightarrow> (string \<times> 'f json) list" where
  "course_fields course = (case course of JObj kvs \<Rightarrow> kvs | v \<Rightarrow> [])"

definition course_found :: "'f json \<Rightarrow> 'f response" where
  "course_found course =
     Json 200 (JObj [(''courseCode'', dict_get (course_fields course) ''courseCode'' JNull),
                     (''topics'', dict_get (course_fields course) ''topics'' (JArr []))])"

section \<open>Properties\<close>

text \<open>C1. While the analyzer is not ready (the global is \<^verbatim>\<open>None\<close>, or the flag
  \<^verbatim>\<open>is_fitted\<close> is false), each of the five analytical view functions answers with the
  service-unavailable response (status 503), invokes no operation of the analyzer and
  leaves the global state as it was.\<close>

theorem not_ready_fails_fast:
  assumes "\<not> exam_analyzer_ready cls g"
  shows "semantic_query fo so cls g req = (not_ready, [], g)
       \<and> pass_strategy fo cls g req = (not_ready, [], g)
       \<and> pass_simulation fo cls g req = (not_ready, [], g)
       \<and> analyze_topics so cls g req = (not_ready, [], g)
       \<and> dataset_stats cls g req = (not_ready, [], g)
       \<and> status_code (not_ready :: 'f response) = Some 503"
  using assms
  by (simp add: exam_analyzer_ready_def semantic_query_def pass_strategy_def pass_simulation_def
        analyze_topics_def dataset_stats_def not_ready_def split: option.splits)

theorem not_ready_fails_fast_witness:
  "\<not> exam_analyzer_ready sample_analyzer \<lparr>exam_analyzer = Some False\<rparr>
   \<and> semantic_query exact_floats ascii_strings sample_analyzer \<lparr>exam_analyzer = Some False\<rparr>
        \<lparr>args = [], get_json = Inr (JObj [(''query'', JStr ''graphs'')])\<rparr>
      = (not_ready, [], \<lparr>exam_analyzer = Some False\<rparr>)
   \<and> dataset_stats sample_analyzer \<lparr>exam_analyzer = Some False\<rparr>
        \<lparr>args = [], get_json = Inr (JObj [(''query'', JStr ''graphs'')])\<rparr>
      = (not_ready, [], \<lparr>exam_analyzer = Some False\<rparr>)"
proof -
  have h: "\<not> exam_analyzer_ready sample_analyzer \<lparr>exam_analyzer = Some False\<rparr>"
    by (simp add: exam_analyzer_ready_def sample_analyzer_def)
  from not_ready_fails_fast [OF h, of exact_floats ascii_strings
      "\<lparr>args = [], get_json = Inr (JObj [(''query'', JStr ''graphs'')])\<rparr>"] h
  show ?thesis by blast
qed

subsection \<open>The \<^verbatim>\<open>/query\<close> endpoint\<close>

lemma flask_handle_not_400: "status_code (flask_handle e :: 'f response) \<noteq> Some 400"
  by (simp add: flask_handle_def internal_error_def)

lemma flask_handle_not_200: "flask_handle e \<noteq> Json 200 body"
  by (simp add: flask_handle_def internal_error_def)

lemma flask_handle_Exception: "isinstance_Exception e \<Longrightarrow> flask_handle e = internal_error"
  by (simp add: flask_handle_def)

lemma query_response_calls:
  "\<exists>rest. fst (snd (query_response fo so cls g a (JObj kvs) query)) =
     Call_semantic_search query (dict_get kvs ''similarity_threshold'' (JFloat (float_half fo)))
       (dict_get kvs ''top_k'' (JInt 20)) # rest"
  by (simp add: query_response_def Let_def split: sum.splits prod.splits)

lemma query_response_not_400:
  "status_code (fst (query_response fo so cls g a (JObj kvs) query)) \<noteq> Some 400"
  by (simp add: query_response_def Let_def flask_handle_not_400 split: sum.splits prod.splits)

lemma query_response_found:
  assumes "semantic_search cls a query (dict_get kvs ''similarity_threshold'' (JFloat (float_half fo)))
             (dict_get kvs ''top_k'' (JInt 20)) = (Inr (JArr xs), a1)"
    and "get_module_distribution cls a1 (JArr xs) = (Inr md, a2)"
    and "get_marks_distribution cls a2 (JArr xs) = (Inr kd, a3)"
  shows "query_response fo so cls g a (JObj kvs) query =
           (Json 200 (JObj [(''query'', JStr query),
                            (''total_matches'', JInt (int (length xs))),
                            (''results'', JArr xs),
                            (''module_distribution'', md),
                            (''marks_distribution'', kd)]),
            [Call_semantic_search query
               (dict_get kvs ''similarity_threshold'' (JFloat (float_half fo)))
               (dict_get kvs ''top_k'' (JInt 20)),
             Call_get_module_distribution (JArr xs),
             Call_get_marks_distribution (JArr xs)],
            g\<lparr>exam_analyzer := Some a3\<rparr>)"
  using assms by (simp add: query_response_def Let_def)

lemma query_response_raises:
  assumes "semantic_search cls a query (dict_get kvs ''similarity_threshold'' (JFloat (float_half fo)))
             (dict_get kvs ''top_k'' (JInt 20)) = (Inl e, a1)"
    and "isinstance_Exception e"
  shows "fst (query_response fo so cls g a (JObj kvs) query) = internal_error"
  using assms by (simp add: query_response_def Let_def flask_handle_Exception)

lemma semantic_query_valid:
  assumes "exam_analyzer g = Some a" "is_fitted cls a"
    and "get_json req = Inr (JObj kvs)"
    and "map_of kvs ''query'' = Some (JStr s)"
    and "s \<noteq> []"
    and "str_strip so s \<noteq> []"
  shows "semantic_query fo so cls g req = query_response fo so cls g a (JObj kvs) (str_strip so s)"
proof -
  from assms(4) have "kvs \<noteq> []" by auto
  then show ?thesis using assms
    by (simp add: semantic_query_def dict_get_def Let_def)
qed

text \<open>C4 as the code has it. While the analyzer is ready, a request to \<^verbatim>\<open>/query\<close> whose
  parsed body is an empty value, or an object whose query field is missing, or present
  but empty or empty after stripping, is answered at once with status 400: no operation
  of the analyzer is invoked, in particular no search, and the global state is
  unchanged. A request whose body the framework refuses is answered with the
  framework's own error, also without any call.\<close>

theorem missing_query_is_bad_request:
  assumes "exam_analyzer_ready cls g"
  shows "(get_json req = Inr data \<and> query_missing_or_empty fo so data \<longrightarrow>
            status_code (fst (semantic_query fo so cls g req)) = Some 400
          \<and> snd (semantic_query fo so cls g req) = ([], g))
       \<and> (\<forall>h. get_json req = Inl h \<longrightarrow> semantic_query fo so cls g req = (Abort h, [], g))"
  using assms
  by (auto simp: exam_analyzer_ready_def query_missing_or_empty_def semantic_query_def
        dict_get_def Let_def
      split: option.splits json.splits)

theorem missing_query_is_bad_request_witness:
  "query_missing_or_empty exact_floats ascii_strings (JObj [(''query'', JStr '' ''), (''top_k'', JInt 5)])
   \<and> status_code (fst (semantic_query exact_floats ascii_strings sample_analyzer
        \<lparr>exam_analyzer = Some True\<rparr>
        \<lparr>args = [], get_json = Inr (JObj [(''query'', JStr '' ''), (''top_k'', JInt 5)])\<rparr>))
      = Some 400
   \<and> snd (semantic_query exact_floats ascii_strings sample_analyzer \<lparr>exam_analyzer = Some True\<rparr>
        \<lparr>args = [], get_json = Inr (JObj [(''query'', JStr '' ''), (''top_k'', JInt 5)])\<rparr>)
      = ([], \<lparr>exam_analyzer = Some True\<rparr>)
   \<and> semantic_query exact_floats ascii_strings sample_analyzer \<lparr>exam_analyzer = Some True\<rparr>
        \<lparr>args = [], get_json = Inl BadRequest\<rparr>
      = (Abort BadRequest, [], \<lparr>exam_analyzer = Some True\<rparr>)"
proof -
  let ?data = "JObj [(''query'', JStr '' ''), (''top_k'', JInt 5)] :: rat json"
  have h1: "exam_analyzer_ready sample_analyzer \<lparr>exam_analyzer = Some True\<rparr>"
    by (simp add: exam_analyzer_ready_def sample_analyzer_def)
  have h3: "query_missing_or_empty exact_floats ascii_strings ?data"
    by (simp add: query_missing_or_empty_def ascii_strings_def ascii_strip_def ascii_isspace_def)
  have h2: "get_json \<lparr>args = [], get_json = Inr ?data\<rparr> = Inr ?data
            \<and> query_missing_or_empty exact_floats ascii_strings ?data"
    using h3 by simp
  from missing_query_is_bad_request [OF h1, of "\<lparr>args = [], get_json = Inr ?data\<rparr>" ?data
      exact_floats ascii_strings, THEN conjunct1, THEN mp, OF h2]
  have a: "status_code (fst (semantic_query exact_floats ascii_strings sample_analyzer
        \<lparr>exam_analyzer = Some True\<rparr> \<lparr>args = [], get_json = Inr ?data\<rparr>)) = Some 400
   \<and> snd (semantic_query exact_floats ascii_strings sample_analyzer \<lparr>exam_analyzer = Some True\<rparr>
        \<lparr>args = [], get_json = Inr ?data\<rparr>) = ([], \<lparr>exam_analyzer = Some True\<rparr>)" .
  from missing_query_is_bad_request [OF h1, of "\<lparr>args = [], get_json = Inl BadRequest\<rparr>" ?data
      exact_floats ascii_strings, THEN conjunct2, rule_format, of BadRequest]
  have b: "semantic_query exact_floats ascii_strings sample_analyzer \<lparr>exam_analyzer = Some True\<rparr>
        \<lparr>args = [], get_json = Inl BadRequest\<rparr>
      = (Abort BadRequest, [], \<lparr>exam_analyzer = Some True\<rparr>)"
    by simp
  from h3 a b show ?thesis by blast
qed

text \<open>The claim C4 itself fails on a request without any query field: while the analyzer is
  not ready the answer is the 503 response; a body that the framework refuses for its
  content type is answered with status 415; and a body that is a non-empty list has no
  method \<^verbatim>\<open>get\<close>, so that the attribute lookup raises and the answer has status 500.\<close>

theorem missing_query_counterexample:
  "status_code (fst (semantic_query exact_floats ascii_strings sample_analyzer
      \<lparr>exam_analyzer = Some False\<rparr> \<lparr>args = [], get_json = Inr (JObj [(''top_k'', JInt 5)])\<rparr>))
     = Some 503
   \<and> status_code (fst (semantic_query exact_floats ascii_strings sample_analyzer
      \<lparr>exam_analyzer = Some True\<rparr> \<lparr>args = [], get_json = Inl UnsupportedMediaType\<rparr>))
     = Some 415
   \<and> semantic_query exact_floats ascii_strings sample_analyzer \<lparr>exam_analyzer = Some True\<rparr>
        \<lparr>args = [], get_json = Inr (JArr [JInt 1])\<rparr>
     = (Json 500 (JObj [(''error'', JStr ''Internal server error''),
                        (''message'', JStr ''An unexpected error occurred.'')]),
        [], \<lparr>exam_analyzer = Some True\<rparr>)"
  by (simp add: semantic_query_def sample_analyzer_def flask_handle_def internal_error_def
        not_ready_def)

text \<open>C5 as the code has it. The view function does not look at the value of \<^verbatim>\<open>top_k\<close>: a
  request with a usable query text reaches \<^verbatim>\<open>semantic_search\<close> with the given \<^verbatim>\<open>top_k\<close>
  (or the default 20), whatever it is, zero and negative numbers included, and the
  status of the response is never 400. The response is built from what the search
  returns: a list that the search returns comes back as \<^verbatim>\<open>results\<close> of a 200 response
  (when the two distribution methods return), and an exception of the search gives the
  internal-server-error response.\<close>

theorem top_k_is_passed_through:
  assumes "exam_analyzer g = Some a" and "is_fitted cls a"
    and "get_json req = Inr (JObj kvs)"
    and "map_of kvs ''query'' = Some (JStr s)"
    and "s \<noteq> []"
    and "str_strip so s \<noteq> []"
    and "threshold = dict_get kvs ''similarity_threshold'' (JFloat (float_half fo))"
    and "top_k = dict_get kvs ''top_k'' (JInt 20)"
  shows "(\<exists>rest. fst (snd (semantic_query fo so cls g req)) =
            Call_semantic_search (str_strip so s) threshold top_k # rest)
       \<and> status_code (fst (semantic_query fo so cls g req)) \<noteq> Some 400
       \<and> (\<forall>xs a1 md a2 kd a3.
             semantic_search cls a (str_strip so s) threshold top_k = (Inr (JArr xs), a1)
             \<and> get_module_distribution cls a1 (JArr xs) = (Inr md, a2)
             \<and> get_marks_distribution cls a2 (JArr xs) = (Inr kd, a3) \<longrightarrow>
             semantic_query fo so cls g req =
               (Json 200 (JObj [(''query'', JStr (str_strip so s)),
                                (''total_matches'', JInt (int (length xs))),
                                (''results'', JArr xs),
                                (''module_distribution'', md),
                                (''marks_distribution'', kd)]),
                [Call_semantic_search (str_strip so s) threshold top_k,
                 Call_get_module_distribution (JArr xs),
                 Call_get_marks_distribution (JArr xs)],
                g\<lparr>exam_analyzer := Some a3\<rparr>))
       \<and> (\<forall>e a1. semantic_search cls a (str_strip so s) threshold top_k = (Inl e, a1)
             \<and> isinstance_Exception e \<longrightarrow>
             fst (semantic_query fo so cls g req) = internal_error)"
proof -
  have e: "semantic_query fo so cls g req = query_response fo so cls g a (JObj kvs) (str_strip so s)"
    using assms(1-6) by (rule semantic_query_valid)
  show ?thesis
    unfolding e assms(7,8)
    using query_response_calls [of fo so cls g a kvs "str_strip so s"]
      query_response_not_400 [of fo so cls g a kvs "str_strip so s"]
    by (auto simp: query_response_found query_response_raises)
qed

theorem top_k_is_passed_through_witness:
  "str_strip ascii_strings ''graphs'' = ''graphs''
   \<and> semantic_query exact_floats ascii_strings finding_analyzer \<lparr>exam_analyzer = Some True\<rparr>
        \<lparr>args = [], get_json = Inr (JObj [(''query'', JStr ''graphs''), (''top_k'', JInt (- 3))])\<rparr>
     = (Json 200 (JObj [(''query'', JStr ''graphs''),
                        (''total_matches'', JInt 2),
                        (''results'', found_questions),
                        (''module_distribution'', JObj [(''A'', JInt 2)]),
                        (''marks_distribution'', JObj [])]),
        [Call_semantic_search ''graphs'' (JFloat (1 / 2)) (JInt (- 3)),
         Call_get_module_distribution found_questions,
         Call_get_marks_distribution found_questions],
        \<lparr>exam_analyzer = Some True\<rparr>)
   \<and> fst (semantic_query exact_floats ascii_strings failing_analyzer \<lparr>exam_analyzer = Some True\<rparr>
        \<lparr>args = [], get_json = Inr (JObj [(''query'', JStr ''graphs''), (''top_k'', JInt (- 3))])\<rparr>)
     = internal_error"
proof -
  let ?kvs = "[(''query'', JStr ''graphs''), (''top_k'', JInt (- 3))] :: (string \<times> rat json) list"
  let ?xs = "[JObj [(''question'', JStr ''Explain heap sort''), (''module'', JStr ''A'')],
              JObj [(''question'', JStr ''Explain merge sort''), (''module'', JStr ''A'')]]
               :: rat json list"
  have f: "found_questions = JArr ?xs"
    by (simp add: found_questions_def)
  have h1: "exam_analyzer \<lparr>exam_analyzer = Some True\<rparr> = Some True"
    and h2: "is_fitted finding_analyzer True"
    and h2': "is_fitted failing_analyzer True"
    and h3: "get_json \<lparr>args = [], get_json = Inr (JObj ?kvs)\<rparr> = Inr (JObj ?kvs)"
    and h4: "map_of ?kvs ''query'' = Some (JStr ''graphs'')"
    and h5: "''graphs'' \<noteq> []"
    by (simp_all add: finding_analyzer_def failing_analyzer_def sample_analyzer_def)
  have st: "str_strip ascii_strings ''graphs'' = ''graphs''"
    by (simp add: ascii_strings_def ascii_strip_def ascii_isspace_def)
  then have h6: "str_strip ascii_strings ''graphs'' \<noteq> []"
    by simp
  have h7: "JFloat (1 / 2) = dict_get ?kvs ''similarity_threshold'' (JFloat (float_half exact_floats))"
    and h8: "JInt (- 3) = dict_get ?kvs ''top_k'' (JInt 20)"
    by (simp_all add: dict_get_def exact_floats_def)
  have s: "semantic_search finding_analyzer True (str_strip ascii_strings ''graphs'')
             (JFloat (1 / 2)) (JInt (- 3)) = (Inr (JArr ?xs), True)
           \<and> get_module_distribution finding_analyzer True (JArr ?xs)
               = (Inr (JObj [(''A'', JInt 2)]), True)
           \<and> get_marks_distribution finding_analyzer True (JArr ?xs) = (Inr (JObj []), True)"
    by (simp add: finding_analyzer_def sample_analyzer_def found_questions_def)
  have r: "semantic_search failing_analyzer True (str_strip ascii_strings ''graphs'')
             (JFloat (1 / 2)) (JInt (- 3)) = (Inl (OtherException ''index unavailable''), True)
           \<and> isinstance_Exception (OtherException ''index unavailable'')"
    by (simp add: failing_analyzer_def sample_analyzer_def)
  from top_k_is_passed_through [OF h1 h2 h3 h4 h5 h6 h7 h8,
      THEN conjunct2, THEN conjunct2, THEN conjunct1, rule_format, OF s]
  have a: "semantic_query exact_floats ascii_strings finding_analyzer \<lparr>exam_analyzer = Some True\<rparr>
        \<lparr>args = [], get_json = Inr (JObj ?kvs)\<rparr>
     = (Json 200 (JObj [(''query'', JStr ''graphs''),
                        (''total_matches'', JInt 2),
                        (''results'', found_questions),
                        (''module_distribution'', JObj [(''A'', JInt 2)]),
                        (''marks_distribution'', JObj [])]),
        [Call_semantic_search ''graphs'' (JFloat (1 / 2)) (JInt (- 3)),
         Call_get_module_distribution found_questions,
         Call_get_marks_distribution found_questions],
        \<lparr>exam_analyzer = Some True\<rparr>)"
    by (simp add: st f)
  from top_k_is_passed_through [OF h1 h2' h3 h4 h5 h6 h7 h8,
      THEN conjunct2, THEN conjunct2, THEN conjunct2, rule_format, OF r]
  have b: "fst (semantic_query exact_floats ascii_strings failing_analyzer \<lparr>exam_analyzer = Some True\<rparr>
        \<lparr>args = [], get_json = Inr (JObj ?kvs)\<rparr>) = internal_error" .
  from st a b show ?thesis by blast
qed

text \<open>The claim C5 itself fails: with \<^verbatim>\<open>top_k\<close> 0 the search is called with that value, and
  the answer is a normal response to an empty result, not a bad request.\<close>

theorem nonpositive_top_k_counterexample:
  "semantic_query exact_floats ascii_strings sample_analyzer \<lparr>exam_analyzer = Some True\<rparr>
     \<lparr>args = [], get_json = Inr (JObj [(''query'', JStr ''graphs''), (''top_k'', JInt 0)])\<rparr>
   = (Json 200 (JObj [(''query'', JStr ''graphs''),
                      (''total_matches'', JInt 0),
                      (''results'', JArr []),
                      (''module_distribution'', JObj []),
                      (''marks_distribution'', JObj [])]),
      [Call_semantic_search ''graphs'' (JFloat (1 / 2)) (JInt 0),
       Call_get_module_distribution (JArr []),
       Call_get_marks_distribution (JArr [])],
      \<lparr>exam_analyzer = Some True\<rparr>)"
  by (simp add: semantic_query_def query_response_def sample_analyzer_def exact_floats_def
        ascii_strings_def ascii_strip_def ascii_isspace_def dict_get_def Let_def)

lemma query_response_200:
  assumes "query_response fo so cls g a data query = (Json 200 body, calls, g')"
  shows "(\<exists>results n. py_get body ''results'' JNull = Inr results \<and> py_len so results = Inr n
           \<and> py_get body ''total_matches'' JNull = Inr (JInt n))
       \<and> (\<forall>xs. py_get body ''results'' JNull = Inr (JArr xs) \<longrightarrow>
             py_get body ''total_matches'' JNull = Inr (JInt (int (length xs))))"
  using assms
  by (auto simp: query_response_def Let_def flask_handle_not_200 dict_get_def
      split: sum.splits prod.splits)

lemma semantic_query_200:
  assumes "semantic_query fo so cls g req = (Json 200 body, calls, g')"
  shows "\<exists>a data query. query_response fo so cls g a data query = (Json 200 body, calls, g')"
  using assms
  by (auto simp: semantic_query_def Let_def flask_handle_not_200 not_ready_def
      split: option.splits sum.splits if_splits json.splits)

text \<open>C8. Whenever \<^verbatim>\<open>/query\<close> answers with status 200, the field \<^verbatim>\<open>total_matches\<close> of the
  response is the length of its field \<^verbatim>\<open>results\<close>: for a list of results, the number of
  its entries. A query with a usable text whose search returns a list is answered with
  status 200, that list and its length (when the two distribution methods return); in
  particular a search that finds nothing gives a 200 response with an empty \<^verbatim>\<open>results\<close>
  and \<^verbatim>\<open>total_matches\<close> 0, not an error.\<close>

theorem total_matches_counts_results:
  "(\<forall>body calls g'. semantic_query fo so cls g req = (Json 200 body, calls, g') \<longrightarrow>
      (\<exists>results n. py_get body ''results'' JNull = Inr results \<and> py_len so results = Inr n
           \<and> py_get body ''total_matches'' JNull = Inr (JInt n))
      \<and> (\<forall>xs. py_get body ''results'' JNull = Inr (JArr xs) \<longrightarrow>
             py_get body ''total_matches'' JNull = Inr (JInt (int (length xs)))))
   \<and> (exam_analyzer g = Some a \<and> is_fitted cls a
        \<and> get_json req = Inr (JObj kvs) \<and> map_of kvs ''query'' = Some (JStr s)
        \<and> s \<noteq> [] \<and> str_strip so s \<noteq> []
        \<and> semantic_search cls a (str_strip so s)
             (dict_get kvs ''similarity_threshold'' (JFloat (float_half fo)))
             (dict_get kvs ''top_k'' (JInt 20)) = (Inr (JArr xs), a1)
        \<and> get_module_distribution cls a1 (JArr xs) = (Inr md, a2)
        \<and> get_marks_distribution cls a2 (JArr xs) = (Inr kd, a3)
      \<longrightarrow> fst (semantic_query fo so cls g req) =
            Json 200 (JObj [(''query'', JStr (str_strip so s)),
                            (''total_matches'', JInt (int (length xs))),
                            (''results'', JArr xs),
                            (''module_distribution'', md),
                            (''marks_distribution'', kd)]))"
    (is "?A \<and> (?H \<longrightarrow> ?B)")
proof -
  have a: ?A
  proof (intro allI impI)
    fix body calls g'
    assume h: "semantic_query fo so cls g req = (Json 200 body, calls, g')"
    from semantic_query_200 [OF h] obtain a data query
      where "query_response fo so cls g a data query = (Json 200 body, calls, g')" by blast
    then show "(\<exists>results n. py_get body ''results'' JNull = Inr results \<and> py_len so results = Inr n
           \<and> py_get body ''total_matches'' JNull = Inr (JInt n))
      \<and> (\<forall>xs. py_get body ''results'' JNull = Inr (JArr xs) \<longrightarrow>
             py_get body ''total_matches'' JNull = Inr (JInt (int (length xs))))"
      by (rule query_response_200)
  qed
  have b: ?B if h: ?H
  proof -
    from h have "semantic_query fo so cls g req
                   = query_response fo so cls g a (JObj kvs) (str_strip so s)"
      by (intro semantic_query_valid) simp_all
    with h show ?thesis
      by (simp add: query_response_found)
  qed
  from a b show ?thesis by blast
qed

theorem total_matches_counts_results_witness:
  "fst (semantic_query exact_floats ascii_strings finding_analyzer \<lparr>exam_analyzer = Some True\<rparr>
     \<lparr>args = [], get_json = Inr (JObj [(''query'', JStr ''sorting algorithms'')])\<rparr>)
   = Json 200 (JObj [(''query'', JStr ''sorting algorithms''),
                     (''total_matches'', JInt 2),
                     (''results'', found_questions),
                     (''module_distribution'', JObj [(''A'', JInt 2)]),
                     (''marks_distribution'', JObj [])])
   \<and> fst (semantic_query exact_floats ascii_strings sample_analyzer \<lparr>exam_analyzer = Some True\<rparr>
     \<lparr>args = [], get_json = Inr (JObj [(''query'', JStr ''binary tree traversal''),
                                       (''similarity_threshold'', JInt 1), (''top_k'', JInt 5)])\<rparr>)
   = Json 200 (JObj [(''query'', JStr ''binary tree traversal''),
                     (''total_matches'', JInt 0),
                     (''results'', JArr []),
                     (''module_distribution'', JObj []),
                     (''marks_distribution'', JObj [])])"
proof -
  let ?xs = "[JObj [(''question'', JStr ''Explain heap sort''), (''module'', JStr ''A'')],
              JObj [(''question'', JStr ''Explain merge sort''), (''module'', JStr ''A'')]]
               :: rat json list"
  have f: "found_questions = JArr ?xs"
    by (simp add: found_questions_def)
  have st: "str_strip ascii_strings ''sorting algorithms'' = ''sorting algorithms''"
    "str_strip ascii_strings ''binary tree traversal'' = ''binary tree traversal''"
    by (simp_all add: ascii_strings_def ascii_strip_def ascii_isspace_def)
  from total_matches_counts_results [of exact_floats ascii_strings finding_analyzer
      "\<lparr>exam_analyzer = Some True\<rparr>"
      "\<lparr>args = [], get_json = Inr (JObj [(''query'', JStr ''sorting algorithms'')])\<rparr>"
      True "[(''query'', JStr ''sorting algorithms'')]" "''sorting algorithms''"
      ?xs True "JObj [(''A'', JInt 2)]" True "JObj []" True, THEN conjunct2]
  have a: "fst (semantic_query exact_floats ascii_strings finding_analyzer \<lparr>exam_analyzer = Some True\<rparr>
     \<lparr>args = [], get_json = Inr (JObj [(''query'', JStr ''sorting algorithms'')])\<rparr>)
   = Json 200 (JObj [(''query'', JStr ''sorting algorithms''),
                     (''total_matches'', JInt 2),
                     (''results'', found_questions),
                     (''module_distribution'', JObj [(''A'', JInt 2)]),
                     (''marks_distribution'', JObj [])])"
    by (simp add: st f finding_analyzer_def sample_analyzer_def dict_get_def)
  from total_matches_counts_results [of exact_floats ascii_strings sample_analyzer
      "\<lparr>exam_analyzer = Some True\<rparr>"
      "\<lparr>args = [], get_json = Inr (JObj [(''query'', JStr ''binary tree traversal''),
                                         (''similarity_threshold'', JInt 1), (''top_k'', JInt 5)])\<rparr>"
      True "[(''query'', JStr ''binary tree traversal''),
             (''similarity_threshold'', JInt 1), (''top_k'', JInt 5)]"
      "''binary tree traversal''" "[]" True "JObj []" True "JObj []" True, THEN conjunct2]
  have b: "fst (semantic_query exact_floats ascii_strings sample_analyzer \<lparr>exam_analyzer = Some True\<rparr>
     \<lparr>args = [], get_json = Inr (JObj [(''query'', JStr ''binary tree traversal''),
                                       (''similarity_threshold'', JInt 1), (''top_k'', JInt 5)])\<rparr>)
   = Json 200 (JObj [(''query'', JStr ''binary tree traversal''),
                     (''total_matches'', JInt 0),
                     (''results'', JArr []),
                     (''module_distribution'', JObj []),
                     (''marks_distribution'', JObj [])])"
    by (simp add: st sample_analyzer_def dict_get_def)
  from a b show ?thesis by blast
qed

subsection \<open>The two pass endpoints\<close>

lemma strategy_response_eq:
  "strategy_response fo cls g a (JObj kvs) =
     (case target_marks fo (dict_get kvs ''external_pass_threshold'' (JInt 40))
             (dict_get kvs ''overall_pass_threshold'' (JInt 75))
             (dict_get kvs ''internal_marks'' (JInt 0)) of
        Inl e \<Rightarrow> (flask_handle e, [], g)
      | Inr t \<Rightarrow>
         (case get_pass_strategy cls a (dict_get kvs ''studied_topics'' (JArr [])) t of
            (Inl e, a1) \<Rightarrow>
              (flask_handle e,
               [Call_get_pass_strategy (dict_get kvs ''studied_topics'' (JArr [])) t],
               g\<lparr>exam_analyzer := Some a1\<rparr>)
          | (Inr strategy, a1) \<Rightarrow>
             (case py_setitem strategy ''inputs''
                     (inputs_echo (dict_get kvs ''internal_marks'' (JInt 0))
                        (dict_get kvs ''studied_topics'' (JArr [])) t) of
                Inl e \<Rightarrow>
                  (flask_handle e,
                   [Call_get_pass_strategy (dict_get kvs ''studied_topics'' (JArr [])) t],
                   g\<lparr>exam_analyzer := Some a1\<rparr>)
              | Inr r \<Rightarrow>
                  (Json 200 r,
                   [Call_get_pass_strategy (dict_get kvs ''studied_topics'' (JArr [])) t],
                   g\<lparr>exam_analyzer := Some a1\<rparr>))))"
  by (simp add: strategy_response_def target_marks_def inputs_echo_def Let_def
      split: sum.splits prod.splits)

lemma simulation_response_eq:
  "simulation_response fo cls g a (JObj kvs) =
     (case target_marks fo (dict_get kvs ''external_pass_threshold'' (JInt 40))
             (dict_get kvs ''overall_pass_threshold'' (JInt 75))
             (dict_get kvs ''internal_marks'' (JInt 0)) of
        Inl e \<Rightarrow> (flask_handle e, [], g)
      | Inr t \<Rightarrow>
         (case run_pass_simulation cls a (dict_get kvs ''studied_topics'' (JArr [])) t of
            (Inl e, a1) \<Rightarrow>
              (flask_handle e,
               [Call_run_pass_simulation (dict_get kvs ''studied_topics'' (JArr [])) t],
               g\<lparr>exam_analyzer := Some a1\<rparr>)
          | (Inr simulation_results, a1) \<Rightarrow>
             (case py_setitem simulation_results ''inputs''
                     (inputs_echo (dict_get kvs ''internal_marks'' (JInt 0))
                        (dict_get kvs ''studied_topics'' (JArr [])) t) of
                Inl e \<Rightarrow>
                  (flask_handle e,
                   [Call_run_pass_simulation (dict_get kvs ''studied_topics'' (JArr [])) t],
                   g\<lparr>exam_analyzer := Some a1\<rparr>)
              | Inr r \<Rightarrow>
                  (Json 200 r,
                   [Call_run_pass_simulation (dict_get kvs ''studied_topics'' (JArr [])) t],
                   g\<lparr>exam_analyzer := Some a1\<rparr>))))"
  by (simp add: simulation_response_def target_marks_def inputs_echo_def Let_def
      split: sum.splits prod.splits)

lemma pass_strategy_ready:
  assumes "exam_analyzer g = Some a" "is_fitted cls a" "get_json req = Inr (JObj kvs)" "kvs \<noteq> []"
  shows "pass_strategy fo cls g req = strategy_response fo cls g a (JObj kvs)"
  using assms by (simp add: pass_strategy_def)

lemma pass_simulation_ready:
  assumes "exam_analyzer g = Some a" "is_fitted cls a" "get_json req = Inr (JObj kvs)" "kvs \<noteq> []"
  shows "pass_simulation fo cls g req = simulation_response fo cls g a (JObj kvs)"
  using assms by (simp add: pass_simulation_def)

lemma py_setitem_inputs:
  "py_setitem strategy ''inputs'' v = Inr r \<Longrightarrow> py_get r ''inputs'' JNull = Inr v"
  by (cases strategy) (auto simp: dict_get_def update_conv')

lemma strategy_response_target:
  assumes "target_marks fo (dict_get kvs ''external_pass_threshold'' (JInt 40))
             (dict_get kvs ''overall_pass_threshold'' (JInt 75))
             (dict_get kvs ''internal_marks'' (JInt 0)) = Inr t"
  shows "fst (snd (strategy_response fo cls g a (JObj kvs))) =
           [Call_get_pass_strategy (dict_get kvs ''studied_topics'' (JArr [])) t]"
    and "fst (strategy_response fo cls g a (JObj kvs)) = Json 200 body \<Longrightarrow>
           py_get body ''inputs'' JNull =
             Inr (inputs_echo (dict_get kvs ''internal_marks'' (JInt 0))
                    (dict_get kvs ''studied_topics'' (JArr [])) t)"
  using assms
  by (auto simp: strategy_response_eq flask_handle_not_200 py_setitem_inputs
      split: sum.splits prod.splits)

lemma simulation_response_target:
  assumes "target_marks fo (dict_get kvs ''external_pass_threshold'' (JInt 40))
             (dict_get kvs ''overall_pass_threshold'' (JInt 75))
             (dict_get kvs ''internal_marks'' (JInt 0)) = Inr t"
  shows "fst (snd (simulation_response fo cls g a (JObj kvs))) =
           [Call_run_pass_simulation (dict_get kvs ''studied_topics'' (JArr [])) t]"
    and "fst (simulation_response fo cls g a (JObj kvs)) = Json 200 body \<Longrightarrow>
           py_get body ''inputs'' JNull =
             Inr (inputs_echo (dict_get kvs ''internal_marks'' (JInt 0))
                    (dict_get kvs ''studied_topics'' (JArr [])) t)"
  using assms
  by (auto simp: simulation_response_eq flask_handle_not_200 py_setitem_inputs
      split: sum.splits prod.splits)

lemma target_marks_int:
  "target_marks fo (JInt e) (JInt o') (JInt i) = Inr (JInt (max e (o' - i)))"
  by (simp add: target_marks_def py_sub_def py_max_def num_gt_def max_def)

lemma strategy_response_dict:
  assumes "target_marks fo (dict_get kvs ''external_pass_threshold'' (JInt 40))
             (dict_get kvs ''overall_pass_threshold'' (JInt 75))
             (dict_get kvs ''internal_marks'' (JInt 0)) = Inr t"
    and "get_pass_strategy cls a (dict_get kvs ''studied_topics'' (JArr [])) t = (Inr (JObj r), a1)"
  shows "strategy_response fo cls g a (JObj kvs) =
           (Json 200 (JObj (AList.update ''inputs''
                              (inputs_echo (dict_get kvs ''internal_marks'' (JInt 0))
                                 (dict_get kvs ''studied_topics'' (JArr [])) t) r)),
            [Call_get_pass_strategy (dict_get kvs ''studied_topics'' (JArr [])) t],
            g\<lparr>exam_analyzer := Some a1\<rparr>)"
  using assms by (simp add: strategy_response_eq)

lemma simulation_response_dict:
  assumes "target_marks fo (dict_get kvs ''external_pass_threshold'' (JInt 40))
             (dict_get kvs ''overall_pass_threshold'' (JInt 75))
             (dict_get kvs ''internal_marks'' (JInt 0)) = Inr t"
    and "run_pass_simulation cls a (dict_get kvs ''studied_topics'' (JArr [])) t = (Inr (JObj r), a1)"
  shows "simulation_response fo cls g a (JObj kvs) =
           (Json 200 (JObj (AList.update ''inputs''
                              (inputs_echo (dict_get kvs ''internal_marks'' (JInt 0))
                                 (dict_get kvs ''studied_topics'' (JArr [])) t) r)),
            [Call_run_pass_simulation (dict_get kvs ''studied_topics'' (JArr [])) t],
            g\<lparr>exam_analyzer := Some a1\<rparr>)"
  using assms by (simp add: simulation_response_eq)

lemma strategy_response_no_dict:
  "\<not> (\<exists>kvs. data = JObj kvs) \<Longrightarrow>
   strategy_response fo cls g a data = (flask_handle AttributeError, [], g)"
  by (cases data) (simp_all add: strategy_response_def)

lemma simulation_response_no_dict:
  "\<not> (\<exists>kvs. data = JObj kvs) \<Longrightarrow>
   simulation_response fo cls g a data = (flask_handle AttributeError, [], g)"
  by (cases data) (simp_all add: simulation_response_def)

lemma strategy_response_call:
  assumes "Call_get_pass_strategy studied t \<in> set (fst (snd (strategy_response fo cls g a data)))"
  shows "\<exists>kvs. data = JObj kvs \<and> studied = dict_get kvs ''studied_topics'' (JArr [])
           \<and> target_marks fo (dict_get kvs ''external_pass_threshold'' (JInt 40))
                (dict_get kvs ''overall_pass_threshold'' (JInt 75))
                (dict_get kvs ''internal_marks'' (JInt 0)) = Inr t"
proof (cases "\<exists>kvs. data = JObj kvs")
  case True
  then obtain kvs where d: "data = JObj kvs" by blast
  from assms show ?thesis
    unfolding d
    by (auto simp: strategy_response_eq split: sum.splits prod.splits)
next
  case False
  then have "strategy_response fo cls g a data = (flask_handle AttributeError, [], g)"
    by (rule strategy_response_no_dict)
  with assms show ?thesis by simp
qed

lemma simulation_response_call:
  assumes "Call_run_pass_simulation studied t \<in> set (fst (snd (simulation_response fo cls g a data)))"
  shows "\<exists>kvs. data = JObj kvs \<and> studied = dict_get kvs ''studied_topics'' (JArr [])
           \<and> target_marks fo (dict_get kvs ''external_pass_threshold'' (JInt 40))
                (dict_get kvs ''overall_pass_threshold'' (JInt 75))
                (dict_get kvs ''internal_marks'' (JInt 0)) = Inr t"
proof (cases "\<exists>kvs. data = JObj kvs")
  case True
  then obtain kvs where d: "data = JObj kvs" by blast
  from assms show ?thesis
    unfolding d
    by (auto simp: simulation_response_eq split: sum.splits prod.splits)
next
  case False
  then have "simulation_response fo cls g a data = (flask_handle AttributeError, [], g)"
    by (rule simulation_response_no_dict)
  with assms show ?thesis by simp
qed

lemma pass_strategy_call:
  assumes "Call_get_pass_strategy studied t \<in> set (fst (snd (pass_strategy fo cls g req)))"
  shows "\<exists>kvs. get_json req = Inr (JObj kvs) \<and> studied = dict_get kvs ''studied_topics'' (JArr [])
           \<and> target_marks fo (dict_get kvs ''external_pass_threshold'' (JInt 40))
                (dict_get kvs ''overall_pass_threshold'' (JInt 75))
                (dict_get kvs ''internal_marks'' (JInt 0)) = Inr t"
  using assms
  by (auto simp: pass_strategy_def dest: strategy_response_call
      split: option.splits if_splits sum.splits)

lemma pass_simulation_call:
  assumes "Call_run_pass_simulation studied t \<in> set (fst (snd (pass_simulation fo cls g req)))"
  shows "\<exists>kvs. get_json req = Inr (JObj kvs) \<and> studied = dict_get kvs ''studied_topics'' (JArr [])
           \<and> target_marks fo (dict_get kvs ''external_pass_threshold'' (JInt 40))
                (dict_get kvs ''overall_pass_threshold'' (JInt 75))
                (dict_get kvs ''internal_marks'' (JInt 0)) = Inr t"
  using assms
  by (auto simp: pass_simulation_def dest: simulation_response_call
      split: option.splits if_splits sum.splits)

lemma strategy_response_200:
  assumes "fst (strategy_response fo cls g a data) = Json 200 body"
  shows "\<exists>kvs t. data = JObj kvs
           \<and> target_marks fo (dict_get kvs ''external_pass_threshold'' (JInt 40))
                (dict_get kvs ''overall_pass_threshold'' (JInt 75))
                (dict_get kvs ''internal_marks'' (JInt 0)) = Inr t
           \<and> py_get body ''inputs'' JNull =
               Inr (inputs_echo (dict_get kvs ''internal_marks'' (JInt 0))
                      (dict_get kvs ''studied_topics'' (JArr [])) t)"
proof (cases "\<exists>kvs. data = JObj kvs")
  case True
  then obtain kvs where d: "data = JObj kvs" by blast
  from assms show ?thesis
    unfolding d
    by (auto simp: strategy_response_eq flask_handle_not_200 py_setitem_inputs
        split: sum.splits prod.splits)
next
  case False
  then have "strategy_response fo cls g a data = (flask_handle AttributeError, [], g)"
    by (rule strategy_response_no_dict)
  with assms show ?thesis by (simp add: flask_handle_not_200)
qed

lemma simulation_response_200:
  assumes "fst (simulation_response fo cls g a data) = Json 200 body"
  shows "\<exists>kvs t. data = JObj kvs
           \<and> target_marks fo (dict_get kvs ''external_pass_threshold'' (JInt 40))
                (dict_get kvs ''overall_pass_threshold'' (JInt 75))
                (dict_get kvs ''internal_marks'' (JInt 0)) = Inr t
           \<and> py_get body ''inputs'' JNull =
               Inr (inputs_echo (dict_get kvs ''internal_marks'' (JInt 0))
                      (dict_get kvs ''studied_topics'' (JArr [])) t)"
proof (cases "\<exists>kvs. data = JObj kvs")
  case True
  then obtain kvs where d: "data = JObj kvs" by blast
  from assms show ?thesis
    unfolding d
    by (auto simp: simulation_response_eq flask_handle_not_200 py_setitem_inputs
        split: sum.splits prod.splits)
next
  case False
  then have "simulation_response fo cls g a data = (flask_handle AttributeError, [], g)"
    by (rule simulation_response_no_dict)
  with assms show ?thesis by (simp add: flask_handle_not_200)
qed

lemma pass_strategy_200:
  assumes "fst (pass_strategy fo cls g req) = Json 200 body"
  shows "\<exists>kvs t. get_json req = Inr (JObj kvs)
           \<and> target_marks fo (dict_get kvs ''external_pass_threshold'' (JInt 40))
                (dict_get kvs ''overall_pass_threshold'' (JInt 75))
                (dict_get kvs ''internal_marks'' (JInt 0)) = Inr t
           \<and> py_get body ''inputs'' JNull =
               Inr (inputs_echo (dict_get kvs ''internal_marks'' (JInt 0))
                      (dict_get kvs ''studied_topics'' (JArr [])) t)"
  using assms
  by (auto simp: pass_strategy_def not_ready_def dest: strategy_response_200
      split: option.splits if_splits sum.splits)

lemma pass_simulation_200:
  assumes "fst (pass_simulation fo cls g req) = Json 200 body"
  shows "\<exists>kvs t. get_json req = Inr (JObj kvs)
           \<and> target_marks fo (dict_get kvs ''external_pass_threshold'' (JInt 40))
                (dict_get kvs ''overall_pass_threshold'' (JInt 75))
                (dict_get kvs ''internal_marks'' (JInt 0)) = Inr t
           \<and> py_get body ''inputs'' JNull =
               Inr (inputs_echo (dict_get kvs ''internal_marks'' (JInt 0))
                      (dict_get kvs ''studied_topics'' (JArr [])) t)"
  using assms
  by (auto simp: pass_simulation_def not_ready_def dest: simulation_response_200
      split: option.splits if_splits sum.splits)

text \<open>C2. In \<^verbatim>\<open>/pass-strategy\<close> and in \<^verbatim>\<open>/pass-simulation\<close> the target handed to the analyzer
  is \<^verbatim>\<open>max(external_pass_threshold, overall_pass_threshold - internal_marks)\<close>. For every
  request and every state: a call that either endpoint makes of its analyzer method
  carries the studied topics of the body and the value of that expression on the fields
  of the body (or their defaults), and a 200 response of either endpoint carries under
  \<^verbatim>\<open>inputs\<close> the internal marks, the studied topics and that value. While the analyzer is
  ready and the body is a non-empty object: whenever the expression has a value, each
  endpoint makes exactly one call of its analyzer method, with the studied topics and
  that value; when the method returns a dict, the answer is the 200 response made of that
  dict with the entry \<^verbatim>\<open>inputs\<close> set to the internal marks, the studied topics and the
  value; when the expression raises, neither endpoint calls the analyzer. Both endpoints
  therefore use the same formula. On integer inputs the value is the integer maximum of
  the threshold and the difference.\<close>

theorem target_marks_passed_and_echoed:
  "(\<forall>studied t.
       Call_get_pass_strategy studied t \<in> set (fst (snd (pass_strategy fo cls g req)))
       \<or> Call_run_pass_simulation studied t \<in> set (fst (snd (pass_simulation fo cls g req))) \<longrightarrow>
       (\<exists>kvs. get_json req = Inr (JObj kvs)
          \<and> studied = dict_get kvs ''studied_topics'' (JArr [])
          \<and> target_marks fo (dict_get kvs ''external_pass_threshold'' (JInt 40))
               (dict_get kvs ''overall_pass_threshold'' (JInt 75))
               (dict_get kvs ''internal_marks'' (JInt 0)) = Inr t))
   \<and> (\<forall>body.
       fst (pass_strategy fo cls g req) = Json 200 body
       \<or> fst (pass_simulation fo cls g req) = Json 200 body \<longrightarrow>
       (\<exists>kvs t. get_json req = Inr (JObj kvs)
          \<and> target_marks fo (dict_get kvs ''external_pass_threshold'' (JInt 40))
               (dict_get kvs ''overall_pass_threshold'' (JInt 75))
               (dict_get kvs ''internal_marks'' (JInt 0)) = Inr t
          \<and> py_get body ''inputs'' JNull =
               Inr (inputs_echo (dict_get kvs ''internal_marks'' (JInt 0))
                      (dict_get kvs ''studied_topics'' (JArr [])) t)))
   \<and> (exam_analyzer g = Some a \<and> is_fitted cls a
       \<and> get_json req = Inr (JObj kvs) \<and> kvs \<noteq> []
       \<and> studied_topics = dict_get kvs ''studied_topics'' (JArr [])
       \<and> internal_marks = dict_get kvs ''internal_marks'' (JInt 0)
       \<and> external_pass_threshold = dict_get kvs ''external_pass_threshold'' (JInt 40)
       \<and> overall_pass_threshold = dict_get kvs ''overall_pass_threshold'' (JInt 75) \<longrightarrow>
        (\<forall>t. target_marks fo external_pass_threshold overall_pass_threshold internal_marks = Inr t \<longrightarrow>
            fst (snd (pass_strategy fo cls g req)) = [Call_get_pass_strategy studied_topics t]
          \<and> fst (snd (pass_simulation fo cls g req)) = [Call_run_pass_simulation studied_topics t]
          \<and> (\<forall>body. fst (pass_strategy fo cls g req) = Json 200 body \<longrightarrow>
                py_get body ''inputs'' JNull = Inr (inputs_echo internal_marks studied_topics t))
          \<and> (\<forall>body. fst (pass_simulation fo cls g req) = Json 200 body \<longrightarrow>
                py_get body ''inputs'' JNull = Inr (inputs_echo internal_marks studied_topics t))
          \<and> (\<forall>r a1. get_pass_strategy cls a studied_topics t = (Inr (JObj r), a1) \<longrightarrow>
                pass_strategy fo cls g req =
                  (Json 200 (JObj (AList.update ''inputs''
                     (JObj [(''internal_marks'', internal_marks),
                            (''studied_topics'', studied_topics),
                            (''calculated_target_marks'', t)]) r)),
                   [Call_get_pass_strategy studied_topics t], g\<lparr>exam_analyzer := Some a1\<rparr>))
          \<and> (\<forall>r a1. run_pass_simulation cls a studied_topics t = (Inr (JObj r), a1) \<longrightarrow>
                pass_simulation fo cls g req =
                  (Json 200 (JObj (AList.update ''inputs''
                     (JObj [(''internal_marks'', internal_marks),
                            (''studied_topics'', studied_topics),
                            (''calculated_target_marks'', t)]) r)),
                   [Call_run_pass_simulation studied_topics t], g\<lparr>exam_analyzer := Some a1\<rparr>)))
       \<and> (\<forall>e. target_marks fo external_pass_threshold overall_pass_threshold internal_marks = Inl e \<longrightarrow>
            fst (snd (pass_strategy fo cls g req)) = []
          \<and> fst (snd (pass_simulation fo cls g req)) = [])
       \<and> (\<forall>e o' i. external_pass_threshold = JInt e \<and> overall_pass_threshold = JInt o'
              \<and> internal_marks = JInt i \<longrightarrow>
            target_marks fo external_pass_threshold overall_pass_threshold internal_marks
              = Inr (JInt (max e (o' - i)))))"
    (is "?CALLS \<and> ?ECHO \<and> (?H \<longrightarrow> ?OK \<and> ?ERR \<and> ?INT)")
proof -
  have calls: ?CALLS
    using pass_strategy_call [of _ _ fo cls g req] pass_simulation_call [of _ _ fo cls g req]
    by blast
  have echo: ?ECHO
    using pass_strategy_200 [of fo cls g req] pass_simulation_200 [of fo cls g req]
    by blast
  have ready: "?OK \<and> ?ERR \<and> ?INT" if h: ?H
  proof -
    from h have a: "exam_analyzer g = Some a" "is_fitted cls a" "get_json req = Inr (JObj kvs)"
      "kvs \<noteq> []" by simp_all
    from h have d: "studied_topics = dict_get kvs ''studied_topics'' (JArr [])"
      "internal_marks = dict_get kvs ''internal_marks'' (JInt 0)"
      "external_pass_threshold = dict_get kvs ''external_pass_threshold'' (JInt 40)"
      "overall_pass_threshold = dict_get kvs ''overall_pass_threshold'' (JInt 75)" by simp_all
    have s: "pass_strategy fo cls g req = strategy_response fo cls g a (JObj kvs)"
      using a by (rule pass_strategy_ready)
    have m: "pass_simulation fo cls g req = simulation_response fo cls g a (JObj kvs)"
      using a by (rule pass_simulation_ready)
    have ok: ?OK
      unfolding s m d
      by (simp add: strategy_response_target simulation_response_target
            strategy_response_dict simulation_response_dict inputs_echo_def)
    have err: ?ERR
      unfolding s m d
      by (simp add: strategy_response_eq simulation_response_eq)
    have ints: ?INT
      by (simp add: target_marks_int)
    from ok err ints show ?thesis by blast
  qed
  from calls echo ready show ?thesis by blast
qed

theorem target_marks_passed_and_echoed_witness:
  "target_marks exact_floats (JInt 40) (JInt 75) (JInt 20) = Inr (JInt 55)
   \<and> pass_strategy exact_floats sample_analyzer \<lparr>exam_analyzer = Some True\<rparr>
        \<lparr>args = [], get_json = Inr (JObj [(''internal_marks'', JInt 20),
                                          (''studied_topics'', JArr [JStr ''Sorting''])])\<rparr>
      = (Json 200 (JObj [(''recommended_topics'', JArr []),
                         (''inputs'', JObj [(''internal_marks'', JInt 20),
                                           (''studied_topics'', JArr [JStr ''Sorting'']),
                                           (''calculated_target_marks'', JInt 55)])]),
         [Call_get_pass_strategy (JArr [JStr ''Sorting'']) (JInt 55)],
         \<lparr>exam_analyzer = Some True\<rparr>)
   \<and> pass_simulation exact_floats sample_analyzer \<lparr>exam_analyzer = Some True\<rparr>
        \<lparr>args = [], get_json = Inr (JObj [(''internal_marks'', JInt 20),
                                          (''studied_topics'', JArr [JStr ''Sorting''])])\<rparr>
      = (Json 200 (JObj [(''pass_probability'', JInt 0),
                         (''inputs'', JObj [(''internal_marks'', JInt 20),
                                           (''studied_topics'', JArr [JStr ''Sorting'']),
                                           (''calculated_target_marks'', JInt 55)])]),
         [Call_run_pass_simulation (JArr [JStr ''Sorting'']) (JInt 55)],
         \<lparr>exam_analyzer = Some True\<rparr>)"
proof -
  let ?kvs = "[(''internal_marks'', JInt 20), (''studied_topics'', JArr [JStr ''Sorting''])]
                :: (string \<times> rat json) list"
  have h: "exam_analyzer \<lparr>exam_analyzer = Some True\<rparr> = Some True
         \<and> is_fitted sample_analyzer True
         \<and> get_json \<lparr>args = [], get_json = Inr (JObj ?kvs)\<rparr> = Inr (JObj ?kvs)
         \<and> ?kvs \<noteq> []
         \<and> JArr [JStr ''Sorting''] = dict_get ?kvs ''studied_topics'' (JArr [])
         \<and> JInt 20 = dict_get ?kvs ''internal_marks'' (JInt 0)
         \<and> JInt 40 = dict_get ?kvs ''external_pass_threshold'' (JInt 40)
         \<and> JInt 75 = dict_get ?kvs ''overall_pass_threshold'' (JInt 75)"
    by (simp add: sample_analyzer_def dict_get_def)
  note w = target_marks_passed_and_echoed [where fo = exact_floats, THEN conjunct2, THEN conjunct2,
      THEN mp, OF h]
  from w [THEN conjunct2, THEN conjunct2, rule_format, of 40 75 20]
  have t: "target_marks exact_floats (JInt 40) (JInt 75) (JInt 20) = Inr (JInt 55)"
    by simp
  have gs: "get_pass_strategy sample_analyzer True (JArr [JStr ''Sorting'']) (JInt 55)
              = (Inr (JObj [(''recommended_topics'', JArr [])]), True)"
    and rs: "run_pass_simulation sample_analyzer True (JArr [JStr ''Sorting'']) (JInt 55)
              = (Inr (JObj [(''pass_probability'', JInt 0)]), True)"
    by (simp_all add: sample_analyzer_def)
  note ok = w [THEN conjunct1, rule_format, OF t]
  from ok [THEN conjunct2, THEN conjunct2, THEN conjunct2, THEN conjunct2, THEN conjunct1,
      rule_format, OF gs]
  have a: "pass_strategy exact_floats sample_analyzer \<lparr>exam_analyzer = Some True\<rparr>
        \<lparr>args = [], get_json = Inr (JObj ?kvs)\<rparr>
      = (Json 200 (JObj [(''recommended_topics'', JArr []),
                         (''inputs'', JObj [(''internal_marks'', JInt 20),
                                           (''studied_topics'', JArr [JStr ''Sorting'']),
                                           (''calculated_target_marks'', JInt 55)])]),
         [Call_get_pass_strategy (JArr [JStr ''Sorting'']) (JInt 55)],
         \<lparr>exam_analyzer = Some True\<rparr>)"
    by simp
  from ok [THEN conjunct2, THEN conjunct2, THEN conjunct2, THEN conjunct2, THEN conjunct2,
      rule_format, OF rs]
  have b: "pass_simulation exact_floats sample_analyzer \<lparr>exam_analyzer = Some True\<rparr>
        \<lparr>args = [], get_json = Inr (JObj ?kvs)\<rparr>
      = (Json 200 (JObj [(''pass_probability'', JInt 0),
                         (''inputs'', JObj [(''internal_marks'', JInt 20),
                                           (''studied_topics'', JArr [JStr ''Sorting'']),
                                           (''calculated_target_marks'', JInt 55)])]),
         [Call_run_pass_simulation (JArr [JStr ''Sorting'']) (JInt 55)],
         \<lparr>exam_analyzer = Some True\<rparr>)"
    by simp
  from t a b show ?thesis by blast
qed

lemma dict_get_absent: "map_of kvs k = None \<Longrightarrow> dict_get kvs k d = d"
  by (simp add: dict_get_def)

lemma analyze_topics_value:
  assumes "exam_analyzer g = Some a" "is_fitted cls a" "min_frequency_arg so req = Inr n"
  shows "\<exists>rest. fst (snd (analyze_topics so cls g req)) = Call_get_topic_analysis n # rest"
  using assms
  by (simp add: analyze_topics_def Let_def split: sum.splits prod.splits)

lemma analyze_topics_default:
  assumes "exam_analyzer g = Some a" "is_fitted cls a" "map_of (args req) ''min_frequency'' = None"
  shows "fst (snd (analyze_topics so cls g req)) = [Call_get_topic_analysis 2]"
  using assms
  by (simp add: analyze_topics_def min_frequency_arg_def Let_def split: sum.splits prod.splits)

text \<open>C10 as the code has it. An optional input that the request omits is replaced by a
  fixed default before the analyzer is called: in \<^verbatim>\<open>/query\<close> the similarity threshold 0.5
  and \<^verbatim>\<open>top_k\<close> 20; in \<^verbatim>\<open>/topics\<close> the minimum frequency 2; in the two pass endpoints, for
  a body that is a non-empty object, the studied topics \<^verbatim>\<open>[]\<close>, internal marks 0, external
  threshold 40 and overall threshold 75, so that a body without any of the four calls the
  analyzer with \<^verbatim>\<open>[]\<close> and the target \<^verbatim>\<open>max(40, 75 - 0)\<close>, which is 75, and echoes these
  values. The empty object is not such a body: the pass endpoints answer it with status
  400 and call nothing.\<close>

theorem omitted_inputs_take_defaults:
  assumes "exam_analyzer_ready cls g"
  shows "(get_json req = Inr (JObj kvs) \<and> map_of kvs ''query'' = Some (JStr s)
            \<and> s \<noteq> [] \<and> str_strip so s \<noteq> [] \<longrightarrow>
            (map_of kvs ''similarity_threshold'' = None \<longrightarrow>
               (\<exists>top_k rest. fst (snd (semantic_query fo so cls g req)) =
                  Call_semantic_search (str_strip so s) (JFloat (float_half fo)) top_k # rest))
          \<and> (map_of kvs ''top_k'' = None \<longrightarrow>
               (\<exists>threshold rest. fst (snd (semantic_query fo so cls g req)) =
                  Call_semantic_search (str_strip so s) threshold (JInt 20) # rest)))
       \<and> (map_of (args req) ''min_frequency'' = None \<longrightarrow>
            fst (snd (analyze_topics so cls g req)) = [Call_get_topic_analysis 2])
       \<and> (get_json req = Inr (JObj kvs) \<and> kvs \<noteq> [] \<longrightarrow>
            (\<forall>studied t. fst (snd (pass_strategy fo cls g req)) = [Call_get_pass_strategy studied t]
                \<or> fst (snd (pass_simulation fo cls g req)) = [Call_run_pass_simulation studied t] \<longrightarrow>
               (map_of kvs ''studied_topics'' = None \<longrightarrow> studied = JArr [])
             \<and> target_marks fo
                 (case map_of kvs ''external_pass_threshold'' of None \<Rightarrow> JInt 40 | Some v \<Rightarrow> v)
                 (case map_of kvs ''overall_pass_threshold'' of None \<Rightarrow> JInt 75 | Some v \<Rightarrow> v)
                 (case map_of kvs ''internal_marks'' of None \<Rightarrow> JInt 0 | Some v \<Rightarrow> v) = Inr t)
          \<and> (\<forall>t. target_marks fo
                 (case map_of kvs ''external_pass_threshold'' of None \<Rightarrow> JInt 40 | Some v \<Rightarrow> v)
                 (case map_of kvs ''overall_pass_threshold'' of None \<Rightarrow> JInt 75 | Some v \<Rightarrow> v)
                 (case map_of kvs ''internal_marks'' of None \<Rightarrow> JInt 0 | Some v \<Rightarrow> v) = Inr t \<longrightarrow>
               fst (snd (pass_strategy fo cls g req)) =
                 [Call_get_pass_strategy
                    (case map_of kvs ''studied_topics'' of None \<Rightarrow> JArr [] | Some v \<Rightarrow> v) t]
             \<and> fst (snd (pass_simulation fo cls g req)) =
                 [Call_run_pass_simulation
                    (case map_of kvs ''studied_topics'' of None \<Rightarrow> JArr [] | Some v \<Rightarrow> v) t])
          \<and> (map_of kvs ''studied_topics'' = None \<and> map_of kvs ''internal_marks'' = None
              \<and> map_of kvs ''external_pass_threshold'' = None
              \<and> map_of kvs ''overall_pass_threshold'' = None \<longrightarrow>
               fst (snd (pass_strategy fo cls g req)) = [Call_get_pass_strategy (JArr []) (JInt 75)]
             \<and> fst (snd (pass_simulation fo cls g req)) = [Call_run_pass_simulation (JArr []) (JInt 75)]
             \<and> (\<forall>body. fst (pass_strategy fo cls g req) = Json 200 body
                    \<or> fst (pass_simulation fo cls g req) = Json 200 body \<longrightarrow>
                  py_get body ''inputs'' JNull = Inr (inputs_echo (JInt 0) (JArr []) (JInt 75)))))
       \<and> (get_json req = Inr (JObj []) \<longrightarrow>
            pass_strategy fo cls g req =
              (Json 400 (JObj [(''error'', JStr ''Invalid JSON payload'')]), [], g)
          \<and> pass_simulation fo cls g req =
              (Json 400 (JObj [(''error'', JStr ''Invalid JSON payload'')]), [], g))"
    (is "(?HQ \<longrightarrow> ?Q) \<and> ?T \<and> (?HP \<longrightarrow> ?P1 \<and> ?P3 \<and> (?HO \<longrightarrow> ?P2)) \<and> (?HE \<longrightarrow> ?E)")
proof -
  from assms obtain a where a: "exam_analyzer g = Some a" "is_fitted cls a"
    by (auto simp: exam_analyzer_ready_def split: option.splits)
  have q: ?Q if h: ?HQ
  proof -
    from h a have "semantic_query fo so cls g req
                     = query_response fo so cls g a (JObj kvs) (str_strip so s)"
      by (intro semantic_query_valid) simp_all
    with query_response_calls [of fo so cls g a kvs "str_strip so s"] show ?thesis
      by (auto simp: dict_get_absent)
  qed
  have t: ?T
    using a by (simp add: analyze_topics_default)
  have p: "?P1 \<and> ?P3 \<and> (?HO \<longrightarrow> ?P2)" if h: ?HP
  proof -
    have s: "pass_strategy fo cls g req = strategy_response fo cls g a (JObj kvs)"
      using a h by (intro pass_strategy_ready) simp_all
    have m: "pass_simulation fo cls g req = simulation_response fo cls g a (JObj kvs)"
      using a h by (intro pass_simulation_ready) simp_all
    have p1: ?P1
      unfolding s m
      by (auto simp: strategy_response_eq simulation_response_eq dict_get_def
          split: sum.splits prod.splits)
    have p3: ?P3
      unfolding s m
      using strategy_response_target(1) [of fo kvs _ cls g a]
        simulation_response_target(1) [of fo kvs _ cls g a]
      by (simp add: dict_get_def)
    have p2: ?P2 if o: ?HO
    proof -
      from o have tm: "target_marks fo (dict_get kvs ''external_pass_threshold'' (JInt 40))
             (dict_get kvs ''overall_pass_threshold'' (JInt 75))
             (dict_get kvs ''internal_marks'' (JInt 0)) = Inr (JInt 75)"
        by (simp add: dict_get_absent target_marks_int)
      from strategy_response_target [OF tm, of cls g a]
        simulation_response_target [OF tm, of cls g a] o
      show ?thesis
        unfolding s m by (auto simp: dict_get_absent)
    qed
    from p1 p3 p2 show ?thesis by blast
  qed
  have e: ?E if ?HE
    using that a by (simp add: pass_strategy_def pass_simulation_def)
  from q t p e show ?thesis by blast
qed

theorem omitted_inputs_take_defaults_witness:
  "fst (snd (pass_strategy exact_floats sample_analyzer \<lparr>exam_analyzer = Some True\<rparr>
      \<lparr>args = [], get_json = Inr (JObj [(''studied_topics'', JArr [JStr ''Sorting''])])\<rparr>))
     = [Call_get_pass_strategy (JArr [JStr ''Sorting'']) (JInt 75)]
   \<and> fst (snd (pass_simulation exact_floats sample_analyzer \<lparr>exam_analyzer = Some True\<rparr>
      \<lparr>args = [], get_json = Inr (JObj [(''studied_topics'', JArr [JStr ''Sorting''])])\<rparr>))
     = [Call_run_pass_simulation (JArr [JStr ''Sorting'']) (JInt 75)]
   \<and> fst (snd (analyze_topics ascii_strings sample_analyzer \<lparr>exam_analyzer = Some True\<rparr>
      \<lparr>args = [], get_json = Inr (JObj [(''query'', JStr ''graphs'')])\<rparr>))
     = [Call_get_topic_analysis 2]
   \<and> (\<exists>rest. fst (snd (semantic_query exact_floats ascii_strings sample_analyzer
      \<lparr>exam_analyzer = Some True\<rparr>
      \<lparr>args = [], get_json = Inr (JObj [(''query'', JStr ''graphs'')])\<rparr>))
     = Call_semantic_search ''graphs'' (JFloat (1 / 2)) (JInt 20) # rest)"
proof -
  let ?q = "[(''query'', JStr ''graphs'')] :: (string \<times> rat json) list"
  let ?p = "[(''studied_topics'', JArr [JStr ''Sorting''])] :: (string \<times> rat json) list"
  have h: "exam_analyzer_ready sample_analyzer \<lparr>exam_analyzer = Some True\<rparr>"
    by (simp add: exam_analyzer_ready_def sample_analyzer_def)
  have st: "str_strip ascii_strings ''graphs'' = ''graphs''"
    by (simp add: ascii_strings_def ascii_strip_def ascii_isspace_def)
  have hf: "float_half exact_floats = 1 / 2"
    by (simp add: exact_floats_def)
  note w = omitted_inputs_take_defaults [OF h, of "\<lparr>args = [], get_json = Inr (JObj ?q)\<rparr>"
      ?q "''graphs''" ascii_strings exact_floats]
  have hq: "get_json \<lparr>args = [], get_json = Inr (JObj ?q)\<rparr> = Inr (JObj ?q)
            \<and> map_of ?q ''query'' = Some (JStr ''graphs'')
            \<and> ''graphs'' \<noteq> [] \<and> str_strip ascii_strings ''graphs'' \<noteq> []"
    by (simp add: st)
  from w [THEN conjunct1, THEN mp, OF hq]
  have q: "\<exists>rest. fst (snd (semantic_query exact_floats ascii_strings sample_analyzer
      \<lparr>exam_analyzer = Some True\<rparr> \<lparr>args = [], get_json = Inr (JObj ?q)\<rparr>))
     = Call_semantic_search ''graphs'' (JFloat (1 / 2)) (JInt 20) # rest"
    by (simp add: st hf) (elim conjE exE, simp)
  from w [THEN conjunct2, THEN conjunct1]
  have t: "fst (snd (analyze_topics ascii_strings sample_analyzer \<lparr>exam_analyzer = Some True\<rparr>
      \<lparr>args = [], get_json = Inr (JObj ?q)\<rparr>)) = [Call_get_topic_analysis 2]"
    by simp
  note v = omitted_inputs_take_defaults [OF h, of "\<lparr>args = [], get_json = Inr (JObj ?p)\<rparr>"
      ?p "''graphs''" ascii_strings exact_floats]
  have hp: "get_json \<lparr>args = [], get_json = Inr (JObj ?p)\<rparr> = Inr (JObj ?p) \<and> ?p \<noteq> []"
    by simp
  have tm: "target_marks exact_floats
              (case map_of ?p ''external_pass_threshold'' of None \<Rightarrow> JInt 40 | Some v \<Rightarrow> v)
              (case map_of ?p ''overall_pass_threshold'' of None \<Rightarrow> JInt 75 | Some v \<Rightarrow> v)
              (case map_of ?p ''internal_marks'' of None \<Rightarrow> JInt 0 | Some v \<Rightarrow> v)
            = Inr (JInt 75)"
    by (simp add: target_marks_int)
  from v [THEN conjunct2, THEN conjunct2, THEN conjunct1, THEN mp, OF hp,
      THEN conjunct2, THEN conjunct1, rule_format, OF tm]
  have p: "fst (snd (pass_strategy exact_floats sample_analyzer \<lparr>exam_analyzer = Some True\<rparr>
      \<lparr>args = [], get_json = Inr (JObj ?p)\<rparr>))
     = [Call_get_pass_strategy (JArr [JStr ''Sorting'']) (JInt 75)]
   \<and> fst (snd (pass_simulation exact_floats sample_analyzer \<lparr>exam_analyzer = Some True\<rparr>
      \<lparr>args = [], get_json = Inr (JObj ?p)\<rparr>))
     = [Call_run_pass_simulation (JArr [JStr ''Sorting'']) (JInt 75)]"
    by simp
  from q t p show ?thesis by blast
qed

text \<open>The claim C10 itself fails: a pass request whose body is the empty object omits all
  four inputs, yet no default is substituted and the analyzer is not called; the answer
  is the bad-request response.\<close>

theorem omitted_inputs_counterexample:
  "pass_strategy exact_floats sample_analyzer \<lparr>exam_analyzer = Some True\<rparr>
     \<lparr>args = [], get_json = Inr (JObj [])\<rparr>
   = (Json 400 (JObj [(''error'', JStr ''Invalid JSON payload'')]), [],
      \<lparr>exam_analyzer = Some True\<rparr>)
   \<and> pass_simulation exact_floats sample_analyzer \<lparr>exam_analyzer = Some True\<rparr>
     \<lparr>args = [], get_json = Inr (JObj [])\<rparr>
   = (Json 400 (JObj [(''error'', JStr ''Invalid JSON payload'')]), [],
      \<lparr>exam_analyzer = Some True\<rparr>)"
  by (simp add: pass_strategy_def pass_simulation_def sample_analyzer_def)

lemma target_marks_raises:
  "target_marks fo ext overall internal = Inl e \<Longrightarrow> e = TypeError \<or> e = OverflowError"
  by (auto simp: target_marks_def py_sub_def py_max_def num_gt_def
      split: sum.splits option.splits pynum.splits)

lemma target_marks_not_number:
  assumes "\<not> is_number internal \<or> \<not> is_number ext \<or> \<not> is_number overall"
  shows "\<exists>e. target_marks fo ext overall internal = Inl e"
  using assms
  by (auto simp: target_marks_def py_sub_def py_max_def num_gt_def is_number_def
      split: sum.splits option.splits pynum.splits)

text \<open>C6 as the code has it. No view function validates a numeric field. A
  \<^verbatim>\<open>min_frequency\<close> that \<^verbatim>\<open>int()\<close> rejects in \<^verbatim>\<open>/topics\<close>, and an \<^verbatim>\<open>internal_marks\<close>,
  \<^verbatim>\<open>external_pass_threshold\<close> or \<^verbatim>\<open>overall_pass_threshold\<close> that is neither a number nor a
  boolean in the two pass endpoints, raise before any operation of the analyzer is
  invoked; the exception reaches Flask, whose handler answers with status 500. The state
  is unchanged. A \<^verbatim>\<open>min_frequency\<close> that \<^verbatim>\<open>int()\<close> accepts goes to the analyzer as the
  integer it denotes.\<close>

theorem malformed_number_is_server_error:
  assumes "exam_analyzer_ready cls g"
  shows "(\<forall>s. map_of (args req) ''min_frequency'' = Some s \<and> str_int so s = None \<longrightarrow>
            analyze_topics so cls g req = (internal_error, [], g))
       \<and> (\<forall>s n. map_of (args req) ''min_frequency'' = Some s \<and> str_int so s = Some n \<longrightarrow>
            (\<exists>rest. fst (snd (analyze_topics so cls g req)) = Call_get_topic_analysis n # rest))
       \<and> (get_json req = Inr (JObj kvs)
           \<and> (\<not> is_number (dict_get kvs ''internal_marks'' (JInt 0))
              \<or> \<not> is_number (dict_get kvs ''external_pass_threshold'' (JInt 40))
              \<or> \<not> is_number (dict_get kvs ''overall_pass_threshold'' (JInt 75))) \<longrightarrow>
            pass_strategy (fo :: 'f float_ops) cls g req = (internal_error, [], g)
          \<and> pass_simulation fo cls g req = (internal_error, [], g))
       \<and> status_code (internal_error :: 'f response) = Some 500"
    (is "?T \<and> ?V \<and> (?HP \<longrightarrow> ?P) \<and> ?S")
proof -
  from assms obtain a where a: "exam_analyzer g = Some a" "is_fitted cls a"
    by (auto simp: exam_analyzer_ready_def split: option.splits)
  have t: ?T
    using a
    by (auto simp: analyze_topics_def min_frequency_arg_def py_int_def flask_handle_Exception)
  have v: ?V
  proof (intro allI impI)
    fix s n
    assume "map_of (args req) ''min_frequency'' = Some s \<and> str_int so s = Some n"
    then have "min_frequency_arg so req = Inr n"
      by (simp add: min_frequency_arg_def py_int_def)
    with a show "\<exists>rest. fst (snd (analyze_topics so cls g req)) = Call_get_topic_analysis n # rest"
      by (rule analyze_topics_value)
  qed
  have p: ?P if h: ?HP
  proof -
    from h have k: "kvs \<noteq> []"
      by (auto simp: dict_get_def is_number_def)
    have s: "pass_strategy fo cls g req = strategy_response fo cls g a (JObj kvs)"
      using a h k by (intro pass_strategy_ready) simp_all
    have m: "pass_simulation fo cls g req = simulation_response fo cls g a (JObj kvs)"
      using a h k by (intro pass_simulation_ready) simp_all
    from h obtain e where e: "target_marks fo (dict_get kvs ''external_pass_threshold'' (JInt 40))
             (dict_get kvs ''overall_pass_threshold'' (JInt 75))
             (dict_get kvs ''internal_marks'' (JInt 0)) = Inl e"
      using target_marks_not_number by blast
    from target_marks_raises [OF e] have "flask_handle e = (internal_error :: 'f response)"
      by (auto simp: flask_handle_Exception)
    with e show ?thesis
      unfolding s m by (simp add: strategy_response_eq simulation_response_eq)
  qed
  have s: ?S
    by (simp add: internal_error_def)
  from t v p s show ?thesis by blast
qed

theorem malformed_number_is_server_error_witness:
  "str_int ascii_strings ''2.5'' = None
   \<and> analyze_topics ascii_strings sample_analyzer \<lparr>exam_analyzer = Some True\<rparr>
        \<lparr>args = [(''min_frequency'', ''2.5'')],
         get_json = Inr (JObj [(''external_pass_threshold'', JNull)])\<rparr>
      = (internal_error, [], \<lparr>exam_analyzer = Some True\<rparr>)
   \<and> \<not> is_number (JNull :: rat json)
   \<and> pass_simulation exact_floats sample_analyzer \<lparr>exam_analyzer = Some True\<rparr>
        \<lparr>args = [(''min_frequency'', ''2.5'')],
         get_json = Inr (JObj [(''external_pass_threshold'', JNull)])\<rparr>
      = (internal_error, [], \<lparr>exam_analyzer = Some True\<rparr>)
   \<and> str_int ascii_strings '' 3'' = Some 3
   \<and> (\<exists>rest. fst (snd (analyze_topics ascii_strings sample_analyzer \<lparr>exam_analyzer = Some True\<rparr>
        \<lparr>args = [(''min_frequency'', '' 3'')], get_json = Inl UnsupportedMediaType\<rparr>))
      = (Call_get_topic_analysis 3 :: rat call) # rest)"
proof -
  let ?kvs = "[(''external_pass_threshold'', JNull)] :: (string \<times> rat json) list"
  let ?req = "\<lparr>args = [(''min_frequency'', ''2.5'')], get_json = Inr (JObj ?kvs)\<rparr>"
  let ?req3 = "\<lparr>args = [(''min_frequency'', '' 3'')], get_json = Inl UnsupportedMediaType\<rparr>
                 :: rat request"
  have h: "exam_analyzer_ready sample_analyzer \<lparr>exam_analyzer = Some True\<rparr>"
    by (simp add: exam_analyzer_ready_def sample_analyzer_def)
  have i: "str_int ascii_strings ''2.5'' = None"
    by (simp add: ascii_strings_def ascii_int_def Py_ISSPACE_def ascii_isdigit_def digit_value_def)
  have j: "str_int ascii_strings '' 3'' = Some 3"
    by (simp add: ascii_strings_def ascii_int_def Py_ISSPACE_def ascii_isdigit_def digit_value_def
          int_max_str_digits_def)
  have n: "\<not> is_number (JNull :: rat json)"
    by (simp add: is_number_def)
  have hp: "get_json ?req = Inr (JObj ?kvs)
           \<and> (\<not> is_number (dict_get ?kvs ''internal_marks'' (JInt 0))
              \<or> \<not> is_number (dict_get ?kvs ''external_pass_threshold'' (JInt 40))
              \<or> \<not> is_number (dict_get ?kvs ''overall_pass_threshold'' (JInt 75)))"
    by (simp add: dict_get_def is_number_def)
  note w = malformed_number_is_server_error [OF h, of ?req ascii_strings ?kvs exact_floats]
  from w [THEN conjunct1, rule_format, of "''2.5''"] i
  have t: "analyze_topics ascii_strings sample_analyzer \<lparr>exam_analyzer = Some True\<rparr> ?req
      = (internal_error, [], \<lparr>exam_analyzer = Some True\<rparr>)"
    by simp
  from w [THEN conjunct2, THEN conjunct2, THEN conjunct1, THEN mp, OF hp]
  have p: "pass_simulation exact_floats sample_analyzer \<lparr>exam_analyzer = Some True\<rparr> ?req
      = (internal_error, [], \<lparr>exam_analyzer = Some True\<rparr>)"
    by blast
  from malformed_number_is_server_error [OF h, of ?req3 ascii_strings ?kvs exact_floats,
      THEN conjunct2, THEN conjunct1, rule_format, of "'' 3''" 3] j
  have v: "\<exists>rest. fst (snd (analyze_topics ascii_strings sample_analyzer
        \<lparr>exam_analyzer = Some True\<rparr> ?req3)) = (Call_get_topic_analysis 3 :: rat call) # rest"
    by simp
  from i t n p j v show ?thesis by blast
qed

text \<open>The claim C6 itself fails: a \<^verbatim>\<open>min_frequency\<close> of \<^verbatim>\<open>abc\<close>, and an \<^verbatim>\<open>internal_marks\<close> of
  \<^verbatim>\<open>"abc"\<close>, are answered with the internal-server-error response, not with status 400.\<close>

theorem malformed_number_counterexample:
  "analyze_topics ascii_strings sample_analyzer \<lparr>exam_analyzer = Some True\<rparr>
     \<lparr>args = [(''min_frequency'', ''abc'')], get_json = Inl UnsupportedMediaType\<rparr>
   = (Json 500 (JObj [(''error'', JStr ''Internal server error''),
                      (''message'', JStr ''An unexpected error occurred.'')]),
      [], \<lparr>exam_analyzer = Some True\<rparr>)
   \<and> pass_strategy exact_floats sample_analyzer \<lparr>exam_analyzer = Some True\<rparr>
     \<lparr>args = [], get_json = Inr (JObj [(''internal_marks'', JStr ''abc'')])\<rparr>
   = (Json 500 (JObj [(''error'', JStr ''Internal server error''),
                      (''message'', JStr ''An unexpected error occurred.'')]),
      [], \<lparr>exam_analyzer = Some True\<rparr>)"
  by (simp add: analyze_topics_def min_frequency_arg_def pass_strategy_def strategy_response_def
        py_int_def ascii_strings_def ascii_int_def Py_ISSPACE_def ascii_isdigit_def py_sub_def
        flask_handle_def internal_error_def sample_analyzer_def dict_get_def Let_def)

subsection \<open>Start-up\<close>

text \<open>C9 as the code has it. When the data folder does not exist, the function returns
  \<^verbatim>\<open>False\<close> after the constructor call alone, with neither \<^verbatim>\<open>load_json_files\<close> nor
  \<^verbatim>\<open>build_embeddings\<close> invoked, and the global holds the fresh analyzer (which is not
  ready, if a fresh analyzer is not fitted). An exception raised by the constructor, by
  the loading or by the embedding build is turned into the return value \<^verbatim>\<open>False\<close> when it
  is an instance of \<^verbatim>\<open>Exception\<close>, which is what the \<^verbatim>\<open>except\<close> clause names; an exception
  that leaves the function is never one of those.\<close>

theorem initialize_catches_Exception:
  "(init cls = Inr a \<and> \<not> path_exists DATA_FOLDER \<longrightarrow>
      initialize_exam_analyzer cls DATA_FOLDER path_exists g
        = (Inr False, [Call_init], g\<lparr>exam_analyzer := Some a\<rparr>)
    \<and> (\<not> is_fitted cls a \<longrightarrow>
         \<not> exam_analyzer_ready cls
             (snd (snd (initialize_exam_analyzer cls DATA_FOLDER path_exists g)))))
   \<and> (\<forall>e. isinstance_Exception e \<longrightarrow>
        (init cls = Inl e \<longrightarrow>
           initialize_exam_analyzer cls DATA_FOLDER path_exists g = (Inr False, [Call_init], g))
      \<and> (init cls = Inr a \<and> path_exists DATA_FOLDER
          \<and> load_json_files cls a DATA_FOLDER = (Inl e, a1) \<longrightarrow>
           fst (initialize_exam_analyzer cls DATA_FOLDER path_exists g) = Inr False)
      \<and> (init cls = Inr a \<and> path_exists DATA_FOLDER
          \<and> load_json_files cls a DATA_FOLDER = (Inr u, a1)
          \<and> build_embeddings cls a1 = (Inl e, a2) \<longrightarrow>
           fst (initialize_exam_analyzer cls DATA_FOLDER path_exists g) = Inr False))
   \<and> (\<forall>e. fst (initialize_exam_analyzer cls DATA_FOLDER path_exists g) = Inl e \<longrightarrow>
        \<not> isinstance_Exception e)"
  by (auto simp: initialize_exam_analyzer_def except_Exception_def exam_analyzer_ready_def
      split: sum.splits prod.splits if_splits)

theorem initialize_catches_Exception_witness:
  "initialize_exam_analyzer (raising_analyzer ValueError) ''./exam_data'' (\<lambda>p. False)
       \<lparr>exam_analyzer = None\<rparr>
     = (Inr False, [Call_init], \<lparr>exam_analyzer = Some False\<rparr>)
   \<and> fst (initialize_exam_analyzer (raising_analyzer ValueError) ''./exam_data'' (\<lambda>p. True)
       \<lparr>exam_analyzer = None\<rparr>) = Inr False"
proof -
  note w = initialize_catches_Exception [of "raising_analyzer ValueError" False _ "''./exam_data''"
      "\<lparr>exam_analyzer = None\<rparr>" False "()" False]
  have i: "init (raising_analyzer ValueError) = Inr False"
    by (simp add: raising_analyzer_def sample_analyzer_def)
  have l: "load_json_files (raising_analyzer ValueError) False ''./exam_data'' = (Inl ValueError, False)"
    by (simp add: raising_analyzer_def sample_analyzer_def)
  from w [of "\<lambda>p. False", THEN conjunct1] i
  have a: "initialize_exam_analyzer (raising_analyzer ValueError) ''./exam_data'' (\<lambda>p. False)
       \<lparr>exam_analyzer = None\<rparr>
     = (Inr False, [Call_init], \<lparr>exam_analyzer = Some False\<rparr>)"
    by simp
  from w [of "\<lambda>p. True", THEN conjunct2, THEN conjunct1, rule_format, of ValueError,
      THEN conjunct2, THEN conjunct1] i l
  have b: "fst (initialize_exam_analyzer (raising_analyzer ValueError) ''./exam_data'' (\<lambda>p. True)
       \<lparr>exam_analyzer = None\<rparr>) = Inr False"
    by simp
  from a b show ?thesis by blast
qed

text \<open>The claim C9 itself fails: a \<^verbatim>\<open>KeyboardInterrupt\<close> raised while the files are loaded is
  not an instance of \<^verbatim>\<open>Exception\<close>, passes the \<^verbatim>\<open>except\<close> clause and leaves the function.\<close>

theorem initialize_propagates_counterexample:
  "initialize_exam_analyzer (raising_analyzer KeyboardInterrupt) ''./exam_data'' (\<lambda>p. True)
       \<lparr>exam_analyzer = None\<rparr>
     = (Inl KeyboardInterrupt, [Call_init, Call_load_json_files ''./exam_data''],
        \<lparr>exam_analyzer = Some False\<rparr>)"
  by (simp add: initialize_exam_analyzer_def except_Exception_def raising_analyzer_def
        sample_analyzer_def)

subsection \<open>The course lookup\<close>

lemma find_course_well_formed:
  "\<forall>c \<in> set courses. has_course_code c \<Longrightarrow>
   find_course so course_code courses =
     Inr (case List.find (course_matches so course_code) courses of
            None \<Rightarrow> course_not_found course_code
          | Some course \<Rightarrow> course_found course)"
proof (induction courses)
  case Nil
  then show ?case by simp
next
  case (Cons c cs)
  then show ?case
    by (auto simp: has_course_code_def course_matches_def course_found_def course_fields_def
        split: json.splits)
qed

lemma course_except_500:
  "isinstance_Exception (fst em) \<Longrightarrow> status_code (course_except em :: 'f response) = Some 500"
  by (cases em) (auto simp: course_except_def split: py_exn.splits)

text \<open>C7 as the code has it. A request to \<^verbatim>\<open>/topics-for-course\<close> without the parameter
  \<^verbatim>\<open>code\<close>, or with an empty one, gets status 400. Otherwise, when
  \<^verbatim>\<open>exams_info.json\<close> is read as an object whose courses all have a code, the answer is
  that of the first course that matches the parameter regardless of case (status 200,
  with its \<^verbatim>\<open>courseCode\<close> and its \<^verbatim>\<open>topics\<close> or an empty list), and the not-found
  response (status 404, with an error message) when no course matches. When the file
  cannot be opened or parsed, the answer has status 500.\<close>

theorem course_lookup:
  "(map_of (args req) ''code'' = None \<or> map_of (args req) ''code'' = Some [] \<longrightarrow>
      status_code (get_topics_for_course so exams_info req) = Some 400)
   \<and> (map_of (args req) ''code'' = Some course_code \<and> course_code \<noteq> [] \<longrightarrow>
        (exams_info = Inr (JObj kvs) \<and> dict_get kvs ''courses'' (JArr []) = JArr courses
         \<and> (\<forall>c \<in> set courses. has_course_code c) \<longrightarrow>
           get_topics_for_course so exams_info req =
             (case List.find (course_matches so course_code) courses of
                None \<Rightarrow> course_not_found course_code
              | Some course \<Rightarrow> course_found course))
      \<and> (\<forall>e msg. exams_info = Inl (e, msg) \<and> isinstance_Exception e \<longrightarrow>
           status_code (get_topics_for_course so exams_info req) = Some 500))
   \<and> status_code (course_not_found course_code :: 'f response) = Some 404
   \<and> status_code (course_found course :: 'f response) = Some 200"
    (is "(?H4 \<longrightarrow> ?C4) \<and> (?HC \<longrightarrow> (?HW \<longrightarrow> ?CW) \<and> ?CE) \<and> ?S4 \<and> ?S2")
proof -
  have c4: ?C4 if ?H4
    using that by (auto simp: get_topics_for_course_def)
  have cw: ?CW if ?HC ?HW
    using that
    by (simp add: get_topics_for_course_def lookup_course_def find_course_well_formed)
  have ce: ?CE if ?HC
    using that by (auto simp: get_topics_for_course_def course_except_500)
  have s4: ?S4
    by (simp add: course_not_found_def)
  have s2: ?S2
    by (simp add: course_found_def)
  from c4 cw ce s4 s2 show ?thesis by blast
qed

theorem course_lookup_witness:
  "get_topics_for_course ascii_strings
     (Inr (JObj [(''courses'', JArr
        [JObj [(''courseCode'', JStr ''CST204''), (''topics'', JArr [JStr ''Automata''])],
         JObj [(''courseCode'', JStr ''CST206''), (''topics'', JArr [JStr ''Scheduling''])],
         JObj [(''courseCode'', JStr ''cst206'')]])]))
     \<lparr>args = [(''code'', ''cst206'')], get_json = Inl UnsupportedMediaType\<rparr>
   = (Json 200 (JObj [(''courseCode'', JStr ''CST206''),
                      (''topics'', JArr [JStr ''Scheduling''])]) :: rat response)"
proof -
  let ?courses = "[JObj [(''courseCode'', JStr ''CST204''), (''topics'', JArr [JStr ''Automata''])],
         JObj [(''courseCode'', JStr ''CST206''), (''topics'', JArr [JStr ''Scheduling''])],
         JObj [(''courseCode'', JStr ''cst206'')]] :: rat json list"
  let ?kvs = "[(''courses'', JArr ?courses)]"
  let ?req = "\<lparr>args = [(''code'', ''cst206'')], get_json = Inl UnsupportedMediaType\<rparr> :: rat request"
  have hc: "map_of (args ?req) ''code'' = Some ''cst206'' \<and> ''cst206'' \<noteq> []"
    by simp
  have hw: "(Inr (JObj ?kvs) :: (py_exn \<times> string) + rat json) = Inr (JObj ?kvs)
            \<and> dict_get ?kvs ''courses'' (JArr []) = JArr ?courses
            \<and> (\<forall>c \<in> set ?courses. has_course_code c)"
    by (simp add: dict_get_def has_course_code_def)
  have f: "List.find (course_matches ascii_strings ''cst206'') ?courses
             = Some (JObj [(''courseCode'', JStr ''CST206''), (''topics'', JArr [JStr ''Scheduling''])])"
    by code_simp
  have c: "course_found (JObj [(''courseCode'', JStr ''CST206''), (''topics'', JArr [JStr ''Scheduling''])])
             = (Json 200 (JObj [(''courseCode'', JStr ''CST206''),
                                (''topics'', JArr [JStr ''Scheduling''])]) :: rat response)"
    by (simp add: course_found_def course_fields_def dict_get_def)
  note e = course_lookup [of ?req ascii_strings "Inr (JObj ?kvs)" "''cst206''" ?kvs ?courses,
      THEN conjunct2, THEN conjunct1, THEN mp, OF hc, THEN conjunct1, THEN mp, OF hw]
  show ?thesis
    by (simp only: e f option.case c)
qed

text \<open>The claim C7 itself fails: when the file is missing, a request with a code gets
  neither a course nor status 404, but the answer of the \<^verbatim>\<open>except FileNotFoundError\<close>
  clause.\<close>

theorem course_lookup_counterexample:
  "get_topics_for_course ascii_strings (Inl (FileNotFoundError, ''No such file or directory''))
     \<lparr>args = [(''code'', ''CST206'')], get_json = Inl UnsupportedMediaType\<rparr>
   = (Json 500 (JObj [(''error'', JStr ''Server configuration file not found.'')]) :: rat response)"
  by (simp add: get_topics_for_course_def course_except_def)

subsection \<open>The Strategy Planner\<close>

lemma accumulate_reaches:
  "\<forall>t \<in> set pool. 0 \<le> average_marks t \<Longrightarrow>
   (snd (accumulate target pool chosen running) \<ge> target)
     = (running + sum_list (map average_marks pool) \<ge> target)"
proof (induction pool arbitrary: chosen running)
  case Nil
  then show ?case by simp
next
  case (Cons t pool)
  have "0 \<le> sum_list (map average_marks pool)"
    using Cons.prems by (intro sum_list_nonneg) auto
  moreover have "0 \<le> average_marks t"
    using Cons.prems by simp
  ultimately show ?case
    using Cons.IH [of "t # chosen" "running + average_marks t"] Cons.prems
    by (auto simp: add.assoc)
qed

lemma topic_records_nonneg: "\<forall>t \<in> set (topic_records corpus). 0 \<le> average_marks t"
  by (auto simp: topic_records_def topic_record_of_def Let_def)

lemma mset_rank: "mset (rank weight ts) = mset ts"
  by (simp add: rank_def)

lemma sum_rank: "sum_list (map average_marks (rank weight ts)) = sum_list (map average_marks ts)"
proof -
  have "sum_mset (image_mset average_marks (mset (rank weight ts)))
          = sum_mset (image_mset average_marks (mset ts))"
    by (simp add: mset_rank)
  then show ?thesis
    by (simp add: sum_mset_sum_list flip: mset_map)
qed

lemma set_rank: "set (rank weight ts) = set ts"
  by (simp add: rank_def)

text \<open>C3. For every corpus, every list of studied topics and every target, the Planner's
  feasibility flag is false exactly when the sum of the average marks of all non-studied
  topics, plus the share of the studied topics, is less than the target; when the sum
  equals the target the flag is true. The ranking weight plays no part in it.\<close>

theorem feasibility_boundary:
  "(\<not> feasible (planner weight corpus studied target))
     = (sum_list (map average_marks (non_studied corpus studied))
          + studied_contribution corpus studied < target)"
proof -
  let ?pool = "rank weight (non_studied corpus studied)"
  have nn: "\<forall>t \<in> set ?pool. 0 \<le> average_marks t"
    using topic_records_nonneg [of corpus] by (auto simp: set_rank non_studied_def)
  have "feasible (planner weight corpus studied target)
          = (snd (accumulate target ?pool [] (studied_contribution corpus studied)) \<ge> target)"
    by (simp add: planner_def Let_def split: prod.splits)
  also have "\<dots> = (studied_contribution corpus studied + sum_list (map average_marks ?pool) \<ge> target)"
    using nn by (rule accumulate_reaches)
  finally show ?thesis
    by (auto simp: sum_rank add.commute)
qed

text \<open>The scenario of section 8: with \<open>Sorting\<close> studied the pool sums to 25 marks, so the
  targets 20 and 25 are feasible and the target 26 is not.\<close>

lemma scenario_plan:
  "planner (\<lambda>f a. a) scenario_corpus [''Sorting''] 20
   = \<lparr>recommended_topics = [''Graphs'', ''Arrays''], projected_marks = 25,
      feasible = True, margin = 5\<rparr>"
  by code_simp

lemma scenario_pool_sum:
  "sum_list (map average_marks (non_studied scenario_corpus [''Sorting''])) = 25"
  by code_simp

theorem feasibility_boundary_witness:
  "feasible (planner (\<lambda>f a. a) scenario_corpus [''Sorting''] 25)
   \<and> \<not> feasible (planner (\<lambda>f a. a) scenario_corpus [''Sorting''] 26)"
  using feasibility_boundary [of "\<lambda>f a. a" scenario_corpus "[''Sorting'']" 25]
    feasibility_boundary [of "\<lambda>f a. a" scenario_corpus "[''Sorting'']" 26]
  by (simp add: scenario_pool_sum studied_contribution_def)

end
